theory Spec2Isabelle
  imports Complex_Main
begin

section \<open>Python values and exceptions\<close>

text \<open>
  The analyzer of \<^verbatim>\<open>audio_emotion_analyzer.py\<close> receives whatever \<^verbatim>\<open>json.loads\<close>
  produces and hands Python dictionaries to \<^verbatim>\<open>json.dumps\<close>. Values are therefore
  modelled dynamically. A dictionary is an association list in insertion order (a Python
  dictionary has every key once). A Python \<^verbatim>\<open>float\<close> is modelled by the real number it
  denotes (NaN and the infinities are not represented), a \<^verbatim>\<open>str\<close> by a \<open>string\<close>.
  The lines written to \<^verbatim>\<open>sys.stderr\<close> are diagnostics outside the protocol and are left out.
\<close>

datatype pyval =
    PNone
  | PBool bool
  | PInt int
  | PFloat real
  | PStr string
  | PList "pyval list"
  | PDict "(pyval \<times> pyval) list"

text \<open>
  Every \<^verbatim>\<open>raise\<close> that an \<^verbatim>\<open>except Exception\<close> clause of the source can catch is a
  value; the string is the exception's argument.
\<close>

datatype exn =
    AttributeError string
  | KeyError string
  | TypeError string
  | IndexError string
  | ValueError string
  | JSONDecodeError string
  | OSError string
  | RecursionError string
  | LibraryError string

definition quoted :: "string \<Rightarrow> string" where
  "quoted s = CHR 0x27 # s @ [CHR 0x27]"

text \<open>\<^verbatim>\<open>str(e)\<close>: the message; for a \<^verbatim>\<open>KeyError\<close> the \<^verbatim>\<open>repr\<close> of the missing key.\<close>

fun str_exn :: "exn \<Rightarrow> string" where
  "str_exn (AttributeError m) = m"
| "str_exn (KeyError k) = quoted k"
| "str_exn (TypeError m) = m"
| "str_exn (IndexError m) = m"
| "str_exn (ValueError m) = m"
| "str_exn (JSONDecodeError m) = m"
| "str_exn (OSError m) = m"
| "str_exn (RecursionError m) = m"
| "str_exn (LibraryError m) = m"

fun type_name :: "pyval \<Rightarrow> string" where
  "type_name PNone = ''NoneType''"
| "type_name (PBool b) = ''bool''"
| "type_name (PInt i) = ''int''"
| "type_name (PFloat r) = ''float''"
| "type_name (PStr s) = ''str''"
| "type_name (PList xs) = ''list''"
| "type_name (PDict kvs) = ''dict''"

text \<open>\<^verbatim>\<open>d.get(key, default)\<close> with a string key; only a \<^verbatim>\<open>dict\<close> has the method.\<close>

definition dict_get :: "(pyval \<times> pyval) list \<Rightarrow> string \<Rightarrow> pyval \<Rightarrow> pyval" where
  "dict_get kvs k dflt = (case map_of kvs (PStr k) of Some v \<Rightarrow> v | None \<Rightarrow> dflt)"

definition py_get :: "pyval \<Rightarrow> string \<Rightarrow> pyval \<Rightarrow> exn + pyval" where
  "py_get d k dflt =
     (case d of
        PDict kvs \<Rightarrow> Inr (dict_get kvs k dflt)
      | _ \<Rightarrow> Inl (AttributeError (quoted (type_name d) @ '' object has no attribute '' @ quoted ''get'')))"

text \<open>\<^verbatim>\<open>d[key]\<close> with a string key, on a value already known to be a \<^verbatim>\<open>dict\<close>.\<close>

definition py_getitem :: "pyval \<Rightarrow> string \<Rightarrow> exn + pyval" where
  "py_getitem d k =
     (case d of
        PDict kvs \<Rightarrow> (case map_of kvs (PStr k) of Some v \<Rightarrow> Inr v | None \<Rightarrow> Inl (KeyError k))
      | _ \<Rightarrow> Inl (TypeError (quoted (type_name d) @ '' object is not subscriptable'')))"

text \<open>Iteration (\<^verbatim>\<open>for x in v\<close>, \<^verbatim>\<open>enumerate(v)\<close>): a list yields its elements, a string
  its characters, a dictionary its keys.\<close>

definition py_iter :: "pyval \<Rightarrow> exn + pyval list" where
  "py_iter v =
     (case v of
        PList xs \<Rightarrow> Inr xs
      | PStr s \<Rightarrow> Inr (map (\<lambda>c. PStr [c]) s)
      | PDict kvs \<Rightarrow> Inr (map fst kvs)
      | _ \<Rightarrow> Inl (TypeError (quoted (type_name v) @ '' object is not iterable'')))"

definition py_len :: "pyval \<Rightarrow> exn + nat" where
  "py_len v =
     (case v of
        PList xs \<Rightarrow> Inr (length xs)
      | PStr s \<Rightarrow> Inr (length s)
      | PDict kvs \<Rightarrow> Inr (length kvs)
      | _ \<Rightarrow> Inl (TypeError (''object of type '' @ quoted (type_name v) @ '' has no len()'')))"

text \<open>Dictionary keys: lists and dictionaries are unhashable; \<^verbatim>\<open>True == 1 == 1.0\<close>.\<close>

fun hashable :: "pyval \<Rightarrow> bool" where
  "hashable (PList xs) = False"
| "hashable (PDict kvs) = False"
| "hashable v = True"

fun num_val :: "pyval \<Rightarrow> real option" where
  "num_val (PBool b) = Some (if b then 1 else 0)"
| "num_val (PInt i) = Some (real_of_int i)"
| "num_val (PFloat r) = Some r"
| "num_val v = None"

definition key_eq :: "pyval \<Rightarrow> pyval \<Rightarrow> bool" where
  "key_eq a b =
     (case (num_val a, num_val b) of
        (Some x, Some y) \<Rightarrow> x = y
      | (None, None) \<Rightarrow> a = b
      | _ \<Rightarrow> False)"

text \<open>\<^verbatim>\<open>d[k] = v\<close>: an existing equal key keeps its place (and its key object), a new key
  goes to the end.\<close>

fun dict_set :: "(pyval \<times> 'v) list \<Rightarrow> pyval \<Rightarrow> 'v \<Rightarrow> (pyval \<times> 'v) list" where
  "dict_set [] k v = [(k, v)]"
| "dict_set ((k', v') # d) k v =
     (if key_eq k' k then (k', v) # d else (k', v') # dict_set d k v)"

definition setitem :: "(pyval \<times> 'v) list \<Rightarrow> pyval \<Rightarrow> 'v \<Rightarrow> exn + (pyval \<times> 'v) list" where
  "setitem d k v =
     (if hashable k then Inr (dict_set d k v)
      else Inl (TypeError (''unhashable type: '' @ quoted (type_name k))))"

fun dict_lookup :: "(pyval \<times> 'v) list \<Rightarrow> pyval \<Rightarrow> 'v option" where
  "dict_lookup [] k = None"
| "dict_lookup ((k', v') # d) k = (if key_eq k' k then Some v' else dict_lookup d k)"

text \<open>\<^verbatim>\<open>v[i]\<close> with a non-negative integer index (the result of \<^verbatim>\<open>np.argmax\<close>). The
  exceptions raised here are caught inside \<^verbatim>\<open>predict_emotion\<close>; their messages reach the
  diagnostic stream only.\<close>

definition py_index :: "pyval \<Rightarrow> nat \<Rightarrow> exn + pyval" where
  "py_index v i =
     (case v of
        PList xs \<Rightarrow> (if i < length xs then Inr (xs ! i) else Inl (IndexError ''list index out of range''))
      | PStr s \<Rightarrow> (if i < length s then Inr (PStr [s ! i]) else Inl (IndexError ''string index out of range''))
      | PDict kvs \<Rightarrow> (case dict_lookup kvs (PInt (int i)) of Some x \<Rightarrow> Inr x | None \<Rightarrow> Inl (KeyError ''index''))
      | _ \<Rightarrow> Inl (TypeError (quoted (type_name v) @ '' object is not subscriptable'')))"

text \<open>\<^verbatim>\<open>np.argmax\<close> of a one-dimensional array: the index of the first occurrence of the
  maximum; an empty array raises.\<close>

fun argmax_from :: "real list \<Rightarrow> nat \<Rightarrow> nat \<Rightarrow> real \<Rightarrow> nat" where
  "argmax_from [] i best v = best"
| "argmax_from (x # xs) i best v =
     (if v < x then argmax_from xs (Suc i) i x else argmax_from xs (Suc i) best v)"

fun np_argmax :: "real list \<Rightarrow> exn + nat" where
  "np_argmax [] = Inl (ValueError ''attempt to get argmax of an empty sequence'')"
| "np_argmax (x # xs) = Inr (argmax_from xs 1 0 x)"

section \<open>External collaborators\<close>

text \<open>
  The string methods and the JSON codec of the runtime, the file system, the audio library
  (librosa, numpy) and the inference runtime (Keras) are not part of the program. Each call
  into them is a field of an environment; a call that may raise returns \<open>exn + _\<close>. The
  type \<open>'m\<close> is the runtime's model object, opaque to the program. A two-dimensional array
  is a list of rows.

  \<^item> \<open>str_strip\<close> is \<^verbatim>\<open>str.strip()\<close>, which removes the Unicode whitespace at both ends.
  \<^item> \<open>json_dumps_raises\<close> is the exception that \<^verbatim>\<open>json.dumps\<close> raises on an object
    (\<^verbatim>\<open>RecursionError\<close> on one nested too deeply), \<open>None\<close> when it returns the text.
  \<^item> \<open>path_exists\<close> is \<^verbatim>\<open>Path.exists()\<close> of the artifact, given as directory and file
    name; it raises \<^verbatim>\<open>OSError\<close> when the path cannot be examined.
\<close>

datatype layer =
    Dense nat string "nat option"
  | Dropout real

record 'm env =
  str_strip :: "string \<Rightarrow> string"
  json_loads :: "string \<Rightarrow> exn + pyval"
  json_dumps_raises :: "pyval \<Rightarrow> exn option"
  py_repr :: "pyval \<Rightarrow> string"
  path_exists :: "string \<times> string \<Rightarrow> exn + bool"
  keras_load_model :: "string \<times> string \<Rightarrow> exn + 'm"
  keras_Sequential :: "layer list \<Rightarrow> exn + 'm"
  keras_compile :: "'m \<Rightarrow> exn + 'm"
  keras_predict :: "'m \<Rightarrow> real list \<Rightarrow> exn + real list"
  librosa_load :: "pyval \<Rightarrow> nat \<Rightarrow> real \<Rightarrow> exn + (real list \<times> nat)"
  librosa_mfcc :: "real list \<Rightarrow> nat \<Rightarrow> nat \<Rightarrow> exn + real list list"
  librosa_spectral_centroid :: "real list \<Rightarrow> nat \<Rightarrow> exn + real list list"
  librosa_zero_crossing_rate :: "real list \<Rightarrow> exn + real list list"
  librosa_rms :: "real list \<Rightarrow> exn + real list list"
  np_mean :: "real list \<Rightarrow> real"
  np_std :: "real list \<Rightarrow> real"

text \<open>String formatting (\<^verbatim>\<open>f"{v}"\<close>): a \<^verbatim>\<open>str\<close> is inserted as it is, anything else
  through the runtime's \<^verbatim>\<open>str()\<close>.\<close>

definition py_format :: "'m env \<Rightarrow> pyval \<Rightarrow> string" where
  "py_format env v = (case v of PStr s \<Rightarrow> s | _ \<Rightarrow> py_repr env v)"

section \<open>The analyzer\<close>

record 'm analyzer =
  model :: "'m option"
  emotion_labels :: pyval
  sample_rate :: nat
  model_path :: pyval
  model_type :: pyval

text \<open>\<^verbatim>\<open>AudioEmotionAnalyzer.__init__\<close>\<close>

definition new_analyzer :: "'m analyzer" where
  "new_analyzer =
     \<lparr>model = None, emotion_labels = PList [], sample_rate = 48000,
      model_path = PNone, model_type = PStr ''fast''\<rparr>"

definition default_labels :: pyval where
  "default_labels =
     PList [PStr ''neutral'', PStr ''calm'', PStr ''happy'', PStr ''sad'',
            PStr ''angry'', PStr ''fearful'', PStr ''disgust'', PStr ''surprised'']"

subsection \<open>Model life cycle\<close>

text \<open>\<^verbatim>\<open>create_dummy_model\<close>: the fallback network. \<^verbatim>\<open>self.model\<close> is assigned before
  \<^verbatim>\<open>compile\<close> runs, so a failing \<^verbatim>\<open>compile\<close> leaves the uncompiled network in place.\<close>

definition fast_layers :: "nat \<Rightarrow> layer list" where
  "fast_layers n =
     [Dense 64 ''relu'' (Some 40), Dropout 0.3,
      Dense 32 ''relu'' None, Dropout 0.3,
      Dense n ''softmax'' None]"

definition deep_layers :: "nat \<Rightarrow> layer list" where
  "deep_layers n =
     [Dense 128 ''relu'' (Some 40), Dropout 0.4,
      Dense 64 ''relu'' None, Dropout 0.4,
      Dense 32 ''relu'' None, Dropout 0.3,
      Dense n ''softmax'' None]"

definition dummy_layers :: "pyval \<Rightarrow> nat \<Rightarrow> layer list" where
  "dummy_layers mt n = (if mt = PStr ''fast'' then fast_layers n else deep_layers n)"

definition create_dummy_model :: "'m env \<Rightarrow> 'm analyzer \<Rightarrow> (exn + unit) \<times> 'm analyzer" where
  "create_dummy_model env self =
     (case py_len (emotion_labels self) of
        Inl e \<Rightarrow> (Inl e, self)
      | Inr n \<Rightarrow>
          (case keras_Sequential env (dummy_layers (model_type self) n) of
             Inl e \<Rightarrow> (Inl e, self)
           | Inr m \<Rightarrow>
               (case keras_compile env m of
                  Inl e \<Rightarrow> (Inl e, self\<lparr>model := Some m\<rparr>)
                | Inr m' \<Rightarrow> (Inr (), self\<lparr>model := Some m'\<rparr>))))"

text \<open>\<^verbatim>\<open>load_model\<close>: \<^verbatim>\<open>Path(self.model_path)\<close> accepts a string only; the artifact is
  the pair of the directory and the file name \<^verbatim>\<open>f"{self.model_type}_model.h5"\<close>. Only the
  deserialisation is inside a \<^verbatim>\<open>try\<close>: an exception of \<^verbatim>\<open>model_file.exists()\<close> leaves the
  method.\<close>

definition artifact :: "'m env \<Rightarrow> string \<Rightarrow> pyval \<Rightarrow> string \<times> string" where
  "artifact env dir mt = (dir, py_format env mt @ ''_model.h5'')"

definition load_model :: "'m env \<Rightarrow> 'm analyzer \<Rightarrow> (exn + unit) \<times> 'm analyzer" where
  "load_model env self =
     (case model_path self of
        PStr dir \<Rightarrow>
          (let model_file = artifact env dir (model_type self) in
           case path_exists env model_file of
             Inl e \<Rightarrow> (Inl e, self)
           | Inr True \<Rightarrow>
               (case keras_load_model env model_file of
                  Inr m \<Rightarrow> (Inr (), self\<lparr>model := Some m\<rparr>)
                | Inl e \<Rightarrow> create_dummy_model env self)
           | Inr False \<Rightarrow> create_dummy_model env self)
      | p \<Rightarrow> (Inl (TypeError (''expected str, bytes or os.PathLike object, not '' @ type_name p)), self))"

text \<open>\<^verbatim>\<open>initialize\<close>: three \<^verbatim>\<open>config.get\<close> with defaults, each assigned as it is read,
  then \<^verbatim>\<open>load_model\<close>. There is no \<^verbatim>\<open>try\<close> in this method.\<close>

definition initialize :: "'m env \<Rightarrow> pyval \<Rightarrow> 'm analyzer \<Rightarrow> (exn + unit) \<times> 'm analyzer" where
  "initialize env config self =
     (case py_get config ''modelPath'' (PStr ''./models/audio-emotion'') of
        Inl e \<Rightarrow> (Inl e, self)
      | Inr mp \<Rightarrow>
          (let self1 = self\<lparr>model_path := mp\<rparr> in
           case py_get config ''modelType'' (PStr ''fast'') of
             Inl e \<Rightarrow> (Inl e, self1)
           | Inr mt \<Rightarrow>
               (let self2 = self1\<lparr>model_type := mt\<rparr> in
                case py_get config ''emotionLabels'' default_labels of
                  Inl e \<Rightarrow> (Inl e, self2)
                | Inr ls \<Rightarrow> load_model env (self2\<lparr>emotion_labels := ls\<rparr>))))"

subsection \<open>Feature extraction\<close>

record feature_dict =
  features :: "real list"
  mfcc :: "real list"
  spectralCentroid :: real
  zeroCrossingRate :: real
  energy :: real

text \<open>The body of the \<^verbatim>\<open>try\<close> of \<^verbatim>\<open>extract_features\<close>. \<^verbatim>\<open>np.mean(a, axis=1)\<close> reduces
  every row, \<^verbatim>\<open>np.mean(a)\<close> the whole array.\<close>

definition extract_features_try :: "'m env \<Rightarrow> 'm analyzer \<Rightarrow> pyval \<Rightarrow> exn + feature_dict" where
  "extract_features_try env self audio_path =
     (case librosa_load env audio_path (sample_rate self) 3.0 of
        Inl e \<Rightarrow> Inl e
      | Inr (y, sr) \<Rightarrow>
     (case librosa_mfcc env y sr 13 of
        Inl e \<Rightarrow> Inl e
      | Inr mfcc_frames \<Rightarrow>
     (let mfcc_mean = map (np_mean env) mfcc_frames;
          mfcc_std = map (np_std env) mfcc_frames in
      case librosa_spectral_centroid env y sr of
        Inl e \<Rightarrow> Inl e
      | Inr sc \<Rightarrow>
     (let spectral_centroid = np_mean env (concat sc) in
      case librosa_zero_crossing_rate env y of
        Inl e \<Rightarrow> Inl e
      | Inr zc \<Rightarrow>
     (let zero_crossing_rate = np_mean env (concat zc) in
      case librosa_rms env y of
        Inl e \<Rightarrow> Inl e
      | Inr rms \<Rightarrow>
     (let energy_mean = np_mean env (concat rms);
          combined = mfcc_mean @ mfcc_std @ [spectral_centroid, zero_crossing_rate, energy_mean];
          fixed = (if length combined < 40
                   then combined @ replicate (40 - length combined) 0
                   else take 40 combined)
      in Inr \<lparr>features = fixed, mfcc = mfcc_mean,
               spectralCentroid = spectral_centroid,
               zeroCrossingRate = zero_crossing_rate,
               energy = energy_mean\<rparr>))))))"

definition zero_features :: feature_dict where
  "zero_features =
     \<lparr>features = replicate 40 0.0, mfcc = replicate 13 0.0,
      spectralCentroid = 0.0, zeroCrossingRate = 0.0, energy = 0.0\<rparr>"

definition extract_features :: "'m env \<Rightarrow> 'm analyzer \<Rightarrow> pyval \<Rightarrow> feature_dict" where
  "extract_features env self audio_path =
     (case extract_features_try env self audio_path of
        Inr r \<Rightarrow> r
      | Inl e \<Rightarrow> zero_features)"

subsection \<open>Prediction\<close>

record prediction =
  emotion :: pyval
  confidence :: real
  scores :: "(pyval \<times> real) list"

text \<open>The loop \<^verbatim>\<open>for i, label in enumerate(self.emotion_labels): scores[label] =
  float(probabilities[i])\<close>; reading past the end of \<^verbatim>\<open>probabilities\<close> raises.\<close>

fun fill_scores ::
  "(pyval \<times> real) list \<Rightarrow> real list \<Rightarrow> (nat \<times> pyval) list \<Rightarrow> exn + (pyval \<times> real) list" where
  "fill_scores acc probabilities [] = Inr acc"
| "fill_scores acc probabilities ((i, label) # rest) =
     (if i < length probabilities then
        (case setitem acc label (probabilities ! i) of
           Inl e \<Rightarrow> Inl e
         | Inr acc' \<Rightarrow> fill_scores acc' probabilities rest)
      else Inl (IndexError ''index out of bounds''))"

definition enumerate :: "'a list \<Rightarrow> (nat \<times> 'a) list" where
  "enumerate xs = zip [0..<length xs] xs"

text \<open>The body of the \<^verbatim>\<open>try\<close> of \<^verbatim>\<open>predict_emotion\<close>. The runtime's answer
  \<^verbatim>\<open>predictions[0]\<close> is a one-dimensional array; an unset model (\<^verbatim>\<open>None\<close>) has no
  \<^verbatim>\<open>predict\<close>.\<close>

definition predict_emotion_try :: "'m env \<Rightarrow> 'm analyzer \<Rightarrow> feature_dict \<Rightarrow> exn + prediction" where
  "predict_emotion_try env self feats =
     (case (case model self of
              None \<Rightarrow> Inl (AttributeError (quoted ''NoneType'' @ '' object has no attribute '' @ quoted ''predict''))
            | Some m \<Rightarrow> keras_predict env m (features feats)) of
        Inl e \<Rightarrow> Inl e
      | Inr probabilities \<Rightarrow>
     (case py_iter (emotion_labels self) of
        Inl e \<Rightarrow> Inl e
      | Inr labels \<Rightarrow>
     (case fill_scores [] probabilities (enumerate labels) of
        Inl e \<Rightarrow> Inl e
      | Inr sc \<Rightarrow>
     (case np_argmax probabilities of
        Inl e \<Rightarrow> Inl e
      | Inr dominant_idx \<Rightarrow>
     (case py_index (emotion_labels self) dominant_idx of
        Inl e \<Rightarrow> Inl e
      | Inr dominant_emotion \<Rightarrow>
          Inr \<lparr>emotion = dominant_emotion,
               confidence = probabilities ! dominant_idx,
               scores = sc\<rparr>)))))"

text \<open>The dictionary comprehension \<^verbatim>\<open>{label: 0.0 for label in self.emotion_labels}\<close> of
  the handler.\<close>

fun zero_scores :: "(pyval \<times> real) list \<Rightarrow> pyval list \<Rightarrow> exn + (pyval \<times> real) list" where
  "zero_scores acc [] = Inr acc"
| "zero_scores acc (label # rest) =
     (case setitem acc label 0.0 of
        Inl e \<Rightarrow> Inl e
      | Inr acc' \<Rightarrow> zero_scores acc' rest)"

text \<open>The \<^verbatim>\<open>except\<close> branch of \<^verbatim>\<open>predict_emotion\<close>; it is not itself protected.\<close>

definition neutral_fallback :: "'m analyzer \<Rightarrow> exn + prediction" where
  "neutral_fallback self =
     (case py_iter (emotion_labels self) of
        Inl e \<Rightarrow> Inl e
      | Inr labels \<Rightarrow>
          (case zero_scores [] labels of
             Inl e \<Rightarrow> Inl e
           | Inr sc \<Rightarrow>
               Inr \<lparr>emotion = PStr ''neutral'', confidence = 1.0,
                    scores = dict_set sc (PStr ''neutral'') 1.0\<rparr>))"

definition predict_emotion :: "'m env \<Rightarrow> 'm analyzer \<Rightarrow> feature_dict \<Rightarrow> exn + prediction" where
  "predict_emotion env self feats =
     (case predict_emotion_try env self feats of
        Inr r \<Rightarrow> Inr r
      | Inl e \<Rightarrow> neutral_fallback self)"

subsection \<open>Analysis\<close>

definition floats :: "real list \<Rightarrow> pyval" where
  "floats xs = PList (map PFloat xs)"

definition scores_dict :: "(pyval \<times> real) list \<Rightarrow> pyval" where
  "scores_dict sc = PDict (map (\<lambda>(k, v). (k, PFloat v)) sc)"

text \<open>\<^verbatim>\<open>analyze_audio\<close>: the full result, or the degraded one when the prediction's own
  handler raised.\<close>

definition analyze_audio :: "'m env \<Rightarrow> 'm analyzer \<Rightarrow> pyval \<Rightarrow> pyval \<Rightarrow> pyval \<Rightarrow> pyval" where
  "analyze_audio env self audio_path session_id timestamp =
     (let feats = extract_features env self audio_path in
      case predict_emotion env self feats of
        Inr emotion_result \<Rightarrow>
          PDict [(PStr ''sessionId'', session_id),
                 (PStr ''timestamp'', timestamp),
                 (PStr ''emotion'', emotion emotion_result),
                 (PStr ''confidence'', PFloat (confidence emotion_result)),
                 (PStr ''scores'', scores_dict (scores emotion_result)),
                 (PStr ''features'',
                    PDict [(PStr ''mfcc'', floats (mfcc feats)),
                           (PStr ''spectralCentroid'', PFloat (spectralCentroid feats)),
                           (PStr ''zeroCrossingRate'', PFloat (zeroCrossingRate feats)),
                           (PStr ''energy'', PFloat (energy feats))]),
                 (PStr ''voiceActivity'', PBool (energy feats > 0.01)),
                 (PStr ''duration'', PFloat 1.0)]
      | Inl e \<Rightarrow>
          PDict [(PStr ''sessionId'', session_id),
                 (PStr ''timestamp'', timestamp),
                 (PStr ''error'', PStr (str_exn e))])"

section \<open>The protocol loop\<close>

text \<open>The body of the \<^verbatim>\<open>try\<close> of \<^verbatim>\<open>main\<close> up to the response handed to
  \<^verbatim>\<open>json.dumps\<close>. The analyzer is returned as it stands when the body ends or raises.\<close>

definition handle_line :: "'m env \<Rightarrow> 'm analyzer \<Rightarrow> string \<Rightarrow> (exn + pyval) \<times> 'm analyzer" where
  "handle_line env analyzer line =
     (case json_loads env (str_strip env line) of
        Inl e \<Rightarrow> (Inl e, analyzer)
      | Inr request \<Rightarrow>
     (case py_get request ''action'' PNone of
        Inl e \<Rightarrow> (Inl e, analyzer)
      | Inr action \<Rightarrow>
          if action = PStr ''init'' then
            (case py_getitem request ''config'' of
               Inl e \<Rightarrow> (Inl e, analyzer)
             | Inr config \<Rightarrow>
                 (case initialize env config analyzer of
                    (Inl e, analyzer') \<Rightarrow> (Inl e, analyzer')
                  | (Inr u, analyzer') \<Rightarrow>
                      (Inr (PDict [(PStr ''status'', PStr ''initialized'')]), analyzer')))
          else if action = PStr ''analyze'' then
            (case py_getitem request ''audioPath'' of
               Inl e \<Rightarrow> (Inl e, analyzer)
             | Inr audio_path \<Rightarrow>
            (case py_getitem request ''sessionId'' of
               Inl e \<Rightarrow> (Inl e, analyzer)
             | Inr session_id \<Rightarrow>
            (case py_getitem request ''timestamp'' of
               Inl e \<Rightarrow> (Inl e, analyzer)
             | Inr timestamp \<Rightarrow>
                 (Inr (PDict [(PStr ''result'', analyze_audio env analyzer audio_path session_id timestamp),
                              (PStr ''sessionId'', session_id),
                              (PStr ''timestamp'', timestamp)]), analyzer))))
          else
            (Inr (PDict [(PStr ''error'', PStr (''Unknown action: '' @ py_format env action))]), analyzer)))"

text \<open>The object \<^verbatim>\<open>{'error': str(e)}\<close> of the \<^verbatim>\<open>except\<close> branch: a dictionary of one string,
  on which \<^verbatim>\<open>json.dumps\<close> returns.\<close>

definition error_response :: "exn \<Rightarrow> pyval" where
  "error_response e = PDict [(PStr ''error'', PStr (str_exn e))]"

text \<open>One iteration of \<^verbatim>\<open>for line in sys.stdin\<close>: the object whose serialisation is
  printed. \<^verbatim>\<open>json.dumps(response)\<close> is the last call inside the \<^verbatim>\<open>try\<close>; when it raises,
  nothing has been printed yet and the \<^verbatim>\<open>except\<close> branch prints the error object.\<close>

definition process_line :: "'m env \<Rightarrow> 'm analyzer \<Rightarrow> string \<Rightarrow> pyval \<times> 'm analyzer" where
  "process_line env analyzer line =
     (case handle_line env analyzer line of
        (Inr response, analyzer') \<Rightarrow>
          (case json_dumps_raises env response of
             None \<Rightarrow> (response, analyzer')
           | Some e \<Rightarrow> (error_response e, analyzer'))
      | (Inl e, analyzer') \<Rightarrow> (error_response e, analyzer'))"

fun protocol_loop :: "'m env \<Rightarrow> 'm analyzer \<Rightarrow> string list \<Rightarrow> pyval list \<times> 'm analyzer" where
  "protocol_loop env analyzer [] = ([], analyzer)"
| "protocol_loop env analyzer (line # rest) =
     (case process_line env analyzer line of
        (response, analyzer') \<Rightarrow>
          (case protocol_loop env analyzer' rest of
             (responses, analyzer'') \<Rightarrow> (response # responses, analyzer'')))"

text \<open>\<^verbatim>\<open>main\<close>: the readiness line, then one response per input line.\<close>

datatype stdout_line = Ready | Response pyval

definition main :: "'m env \<Rightarrow> string list \<Rightarrow> stdout_line list" where
  "main env lines = Ready # map Response (fst (protocol_loop env new_analyzer lines))"

section \<open>A concrete environment\<close>

text \<open>
  A small, fully computable environment on which the theorems below are instantiated. Its
  model object is the distribution the classifier returns; the fallback network returns
  the uniform distribution over its output units and cannot be built without one. No
  artifact exists on disk, one audio file can be decoded, the codec knows five input lines
  and serialises every response.
\<close>

definition line_init_empty :: string where
  \<open>line_init_empty = ''{"action": "init", "config": {}}''\<close>

definition line_init_null :: string where
  \<open>line_init_null = ''{"action": "init", "config": null}''\<close>

definition line_init_two :: string where
  \<open>line_init_two = ''{"action": "init", "config": {"emotionLabels": ["neutral", "happy"]}}''\<close>

definition line_analyze :: string where
  \<open>line_analyze = ''{"action": "analyze", "audioPath": "clip.wav", "sessionId": "s1", "timestamp": 1}''\<close>

definition line_garbage :: string where
  "line_garbage = ''not valid json''"

definition sample_loads :: "string \<Rightarrow> exn + pyval" where
  "sample_loads s =
     (if s = line_init_empty then
        Inr (PDict [(PStr ''action'', PStr ''init''), (PStr ''config'', PDict [])])
      else if s = line_init_null then
        Inr (PDict [(PStr ''action'', PStr ''init''), (PStr ''config'', PNone)])
      else if s = line_init_two then
        Inr (PDict [(PStr ''action'', PStr ''init''),
                    (PStr ''config'',
                       PDict [(PStr ''emotionLabels'', PList [PStr ''neutral'', PStr ''happy''])])])
      else if s = line_analyze then
        Inr (PDict [(PStr ''action'', PStr ''analyze''), (PStr ''audioPath'', PStr ''clip.wav''),
                    (PStr ''sessionId'', PStr ''s1''), (PStr ''timestamp'', PInt 1)])
      else Inl (JSONDecodeError ''Expecting value: line 1 column 1 (char 0)''))"

definition sample_network :: "layer list \<Rightarrow> exn + real list" where
  "sample_network ls =
     (case last ls of
        Dense n a i \<Rightarrow>
          (if n = 0 then Inl (ValueError ''Received an invalid value for units'')
           else Inr (replicate n (1 / real n)))
      | Dropout r \<Rightarrow> Inl (ValueError ''no output layer''))"

text \<open>The whitespace of the sample lines is ASCII.\<close>

definition is_space :: "char \<Rightarrow> bool" where
  "is_space c =
     (c \<in> set [CHR '' '', CHR 0x09, CHR 0x0A, CHR 0x0B, CHR 0x0C, CHR 0x0D,
                CHR 0x1C, CHR 0x1D, CHR 0x1E, CHR 0x1F])"

definition sample_strip :: "string \<Rightarrow> string" where
  "sample_strip s = rev (dropWhile is_space (rev (dropWhile is_space s)))"

text \<open>An artifact in a directory whose name has more than 255 characters cannot be
  examined.\<close>

definition sample_exists :: "string \<times> string \<Rightarrow> exn + bool" where
  "sample_exists file =
     (if 255 < length (fst file) then Inl (OSError ''[Errno 36] File name too long'')
      else Inr False)"

definition sample_env :: "(real list) env" where
  "sample_env =
     \<lparr>str_strip = sample_strip,
      json_loads = sample_loads,
      json_dumps_raises = (\<lambda>v. None),
      py_repr = (\<lambda>v. type_name v),
      path_exists = sample_exists,
      keras_load_model = (\<lambda>p. Inl (LibraryError ''No file or directory found'')),
      keras_Sequential = sample_network,
      keras_compile = Inr,
      keras_predict = (\<lambda>m x. if length x = 40 then Inr m else Inl (ValueError ''incompatible shape'')),
      librosa_load = (\<lambda>p sr d. if p = PStr ''clip.wav'' then Inr ([0, 0.5, - 0.5, 0], sr)
                                else Inl (LibraryError ''No such file'')),
      librosa_mfcc = (\<lambda>y sr n. Inr (replicate n [1, 3])),
      librosa_spectral_centroid = (\<lambda>y sr. Inr [[1000, 3000]]),
      librosa_zero_crossing_rate = (\<lambda>y. Inr [[0.25, 0.75]]),
      librosa_rms = (\<lambda>y. Inr [[0.02, 0.04]]),
      np_mean = (\<lambda>xs. sum_list xs / real (length xs)),
      np_std = (\<lambda>xs. (Max (set xs) - Min (set xs)) / 2)\<rparr>"

section \<open>Evaluation rules\<close>

lemmas sample_simps =
  sample_env_def sample_loads_def sample_network_def sample_strip_def is_space_def
  sample_exists_def line_init_empty_def line_init_null_def
  line_init_two_def line_analyze_def line_garbage_def

lemmas py_simps =
  py_get_def dict_get_def py_getitem_def py_iter_def py_len_def py_index_def setitem_def
  key_eq_def quoted_def py_format_def enumerate_def

lemmas analyzer_simps =
  new_analyzer_def default_labels_def create_dummy_model_def load_model_def artifact_def
  initialize_def fast_layers_def deep_layers_def dummy_layers_def
  extract_features_try_def extract_features_def
  zero_features_def predict_emotion_try_def neutral_fallback_def predict_emotion_def
  analyze_audio_def floats_def scores_dict_def handle_line_def process_line_def
  error_response_def

section \<open>The protocol loop answers every line\<close>

lemma protocol_loop_Cons:
  "protocol_loop env a (l # ls) =
     (fst (process_line env a l) # fst (protocol_loop env (snd (process_line env a l)) ls),
      snd (protocol_loop env (snd (process_line env a l)) ls))"
  by (simp split: prod.splits)

lemma protocol_loop_length: "length (fst (protocol_loop env a ls)) = length ls"
  by (induction ls arbitrary: a) (simp_all add: protocol_loop_Cons del: protocol_loop.simps(2))

lemma protocol_loop_snoc:
  "protocol_loop env a (ls @ [l]) =
     (fst (protocol_loop env a ls) @ [fst (process_line env (snd (protocol_loop env a ls)) l)],
      snd (process_line env (snd (protocol_loop env a ls)) l))"
  by (induction ls arbitrary: a) (simp_all add: protocol_loop_Cons del: protocol_loop.simps(2))

lemma protocol_loop_nth:
  "i < length ls \<Longrightarrow>
   fst (protocol_loop env a ls) ! i =
     fst (process_line env (snd (protocol_loop env a (take i ls))) (ls ! i))"
proof (induction ls arbitrary: a i)
  case Nil
  then show ?case by simp
next
  case (Cons l ls)
  show ?case
  proof (cases i)
    case 0
    then show ?thesis by (simp add: protocol_loop_Cons del: protocol_loop.simps(2))
  next
    case (Suc j)
    with Cons.prems have "j < length ls" by simp
    from Cons.IH [OF this] Suc show ?thesis
      by (simp add: protocol_loop_Cons del: protocol_loop.simps(2))
  qed
qed

lemma protocol_loop_state_step:
  "i < length ls \<Longrightarrow>
   snd (protocol_loop env a (take (Suc i) ls)) =
     snd (process_line env (snd (protocol_loop env a (take i ls))) (ls ! i))"
  by (simp add: take_Suc_conv_app_nth protocol_loop_snoc)

lemma process_line_cases:
  "process_line env a l =
     (case fst (handle_line env a l) of
        Inr response \<Rightarrow>
          (case json_dumps_raises env response of
             None \<Rightarrow> response
           | Some e \<Rightarrow> PDict [(PStr ''error'', PStr (str_exn e))])
      | Inl e \<Rightarrow> PDict [(PStr ''error'', PStr (str_exn e))],
      snd (handle_line env a l))"
  by (auto simp: process_line_def error_response_def split: prod.splits sum.splits option.splits)

text \<open>
  Claim C1. For every sequence of input lines the loop prints exactly one response per
  line. The response at position \<open>i\<close> is the one computed for line \<open>i\<close> by the body of the
  \<^verbatim>\<open>try\<close>, run on the analyzer as the lines before it left it; when that body raises an
  exception \<open>e\<close>, be it while the line is decoded, while the request is handled or while
  the response is serialised, the response is the object \<^verbatim>\<open>{"error": str(e)}\<close>; and in every
  case the loop goes on to the next line with the analyzer the body left behind. Hence no
  failing line ends the loop, and none removes or adds a response. The output of \<^verbatim>\<open>main\<close> is
  the readiness line followed by these responses.
\<close>

theorem protocol_loop_one_response_per_line:
  "length (main env lines) = Suc (length lines) \<and>
   length (fst (protocol_loop env a lines)) = length lines \<and>
   (\<forall>i < length lines.
      fst (protocol_loop env a lines) ! i =
        (case fst (handle_line env (snd (protocol_loop env a (take i lines))) (lines ! i)) of
           Inr response \<Rightarrow>
             (case json_dumps_raises env response of
                None \<Rightarrow> response
              | Some e \<Rightarrow> PDict [(PStr ''error'', PStr (str_exn e))])
         | Inl e \<Rightarrow> PDict [(PStr ''error'', PStr (str_exn e))]) \<and>
      snd (protocol_loop env a (take (Suc i) lines)) =
        snd (handle_line env (snd (protocol_loop env a (take i lines))) (lines ! i)))"
  by (simp add: main_def protocol_loop_length protocol_loop_nth protocol_loop_state_step
      process_line_cases)

theorem protocol_loop_one_response_per_line_witness:
  "length (fst (protocol_loop sample_env new_analyzer
      [line_garbage, line_init_null, line_init_empty])) = 3 \<and>
   fst (protocol_loop sample_env new_analyzer
      [line_garbage, line_init_null, line_init_empty]) ! 0 =
     PDict [(PStr ''error'', PStr ''Expecting value: line 1 column 1 (char 0)'')] \<and>
   fst (protocol_loop sample_env new_analyzer
      [line_garbage, line_init_null, line_init_empty]) ! 2 =
     PDict [(PStr ''status'', PStr ''initialized'')]"
  using protocol_loop_one_response_per_line
    [where env = sample_env and a = new_analyzer
       and lines = "[line_garbage, line_init_null, line_init_empty]"]
  by (simp add: sample_simps py_simps analyzer_simps)

section \<open>Feature extraction has a fixed shape\<close>

lemma extract_features_length: "length (features (extract_features env self p)) = 40"
  by (auto simp: extract_features_def extract_features_try_def zero_features_def Let_def
      split: sum.splits prod.splits)

lemma extract_features_success:
  assumes "librosa_load env p (sample_rate self) 3.0 = Inr (y, sr)"
    and "librosa_mfcc env y sr 13 = Inr M"
    and "librosa_spectral_centroid env y sr = Inr sc"
    and "librosa_zero_crossing_rate env y = Inr zc"
    and "librosa_rms env y = Inr rms"
  shows "extract_features env self p =
     (let raw = map (np_mean env) M @ map (np_std env) M @
                  [np_mean env (concat sc), np_mean env (concat zc), np_mean env (concat rms)]
      in \<lparr>features = (if length raw < 40 then raw @ replicate (40 - length raw) 0 else take 40 raw),
          mfcc = map (np_mean env) M,
          spectralCentroid = np_mean env (concat sc),
          zeroCrossingRate = np_mean env (concat zc),
          energy = np_mean env (concat rms)\<rparr>)"
  using assms by (simp add: extract_features_def extract_features_try_def Let_def)

lemma extract_features_failure:
  assumes "isl (librosa_load env p (sample_rate self) 3.0) \<or>
     (\<exists>y sr. librosa_load env p (sample_rate self) 3.0 = Inr (y, sr) \<and>
        (isl (librosa_mfcc env y sr 13) \<or> isl (librosa_spectral_centroid env y sr) \<or>
         isl (librosa_zero_crossing_rate env y) \<or> isl (librosa_rms env y)))"
  shows "extract_features env self p = zero_features"
  using assms
  by (auto simp: extract_features_def extract_features_try_def Let_def isl_def
      split: sum.splits prod.splits)

text \<open>
  Claim C2. Whatever the audio path, \<^verbatim>\<open>extract_features\<close> returns (it has no exceptional
  result) a record whose \<^verbatim>\<open>features\<close> list has exactly 40 entries. When every library call
  succeeds, the record carries the per-row means as \<^verbatim>\<open>mfcc\<close> and the three means as scalar
  summaries; with the 13 rows that \<^verbatim>\<open>n_mfcc=13\<close> asks for, \<^verbatim>\<open>features\<close> is the 13 means, the
  13 standard deviations and the three scalars followed by 11 zeros; were the raw vector
  40 or longer, \<^verbatim>\<open>features\<close> would be its first 40 entries. When any of the five library calls
  raises, the result is the zero record: 40 zeros, 13 zeros and three times 0.0.
\<close>

theorem extract_features_fixed_length:
  "length (features (extract_features env self p)) = 40 \<and>
   (librosa_load env p (sample_rate self) 3.0 = Inr (y, sr) \<and>
    librosa_mfcc env y sr 13 = Inr M \<and>
    librosa_spectral_centroid env y sr = Inr sc \<and>
    librosa_zero_crossing_rate env y = Inr zc \<and>
    librosa_rms env y = Inr rms \<longrightarrow>
      mfcc (extract_features env self p) = map (np_mean env) M \<and>
      spectralCentroid (extract_features env self p) = np_mean env (concat sc) \<and>
      zeroCrossingRate (extract_features env self p) = np_mean env (concat zc) \<and>
      energy (extract_features env self p) = np_mean env (concat rms) \<and>
      (length M = 13 \<longrightarrow>
         features (extract_features env self p) =
           map (np_mean env) M @ map (np_std env) M @
           [np_mean env (concat sc), np_mean env (concat zc), np_mean env (concat rms)] @
           replicate 11 0) \<and>
      (40 \<le> 2 * length M + 3 \<longrightarrow>
         features (extract_features env self p) =
           take 40 (map (np_mean env) M @ map (np_std env) M @
             [np_mean env (concat sc), np_mean env (concat zc), np_mean env (concat rms)]))) \<and>
   (isl (librosa_load env p (sample_rate self) 3.0) \<or>
    (\<exists>y sr. librosa_load env p (sample_rate self) 3.0 = Inr (y, sr) \<and>
       (isl (librosa_mfcc env y sr 13) \<or> isl (librosa_spectral_centroid env y sr) \<or>
        isl (librosa_zero_crossing_rate env y) \<or> isl (librosa_rms env y))) \<longrightarrow>
      extract_features env self p =
        \<lparr>features = replicate 40 0, mfcc = replicate 13 0,
         spectralCentroid = 0, zeroCrossingRate = 0, energy = 0\<rparr>)"
proof (intro conjI impI)
  show "length (features (extract_features env self p)) = 40"
    by (rule extract_features_length)
next
  assume "isl (librosa_load env p (sample_rate self) 3.0) \<or>
    (\<exists>y sr. librosa_load env p (sample_rate self) 3.0 = Inr (y, sr) \<and>
       (isl (librosa_mfcc env y sr 13) \<or> isl (librosa_spectral_centroid env y sr) \<or>
        isl (librosa_zero_crossing_rate env y) \<or> isl (librosa_rms env y)))"
  from extract_features_failure [OF this]
  show "extract_features env self p =
        \<lparr>features = replicate 40 0, mfcc = replicate 13 0,
         spectralCentroid = 0, zeroCrossingRate = 0, energy = 0\<rparr>"
    by (simp add: zero_features_def)
next
  assume a: "librosa_load env p (sample_rate self) 3.0 = Inr (y, sr) \<and>
    librosa_mfcc env y sr 13 = Inr M \<and>
    librosa_spectral_centroid env y sr = Inr sc \<and>
    librosa_zero_crossing_rate env y = Inr zc \<and>
    librosa_rms env y = Inr rms"
  have eq: "extract_features env self p =
     (let raw = map (np_mean env) M @ map (np_std env) M @
                  [np_mean env (concat sc), np_mean env (concat zc), np_mean env (concat rms)]
      in \<lparr>features = (if length raw < 40 then raw @ replicate (40 - length raw) 0 else take 40 raw),
          mfcc = map (np_mean env) M,
          spectralCentroid = np_mean env (concat sc),
          zeroCrossingRate = np_mean env (concat zc),
          energy = np_mean env (concat rms)\<rparr>)"
    using a extract_features_success [of env p self y sr M sc zc rms] by simp
  show "mfcc (extract_features env self p) = map (np_mean env) M" by (simp add: eq Let_def)
  show "spectralCentroid (extract_features env self p) = np_mean env (concat sc)" by (simp add: eq Let_def)
  show "zeroCrossingRate (extract_features env self p) = np_mean env (concat zc)" by (simp add: eq Let_def)
  show "energy (extract_features env self p) = np_mean env (concat rms)" by (simp add: eq Let_def)
  {
    assume "length M = 13"
    then show "features (extract_features env self p) =
           map (np_mean env) M @ map (np_std env) M @
           [np_mean env (concat sc), np_mean env (concat zc), np_mean env (concat rms)] @
           replicate 11 0"
      by (simp add: eq Let_def)
  }
  {
    assume "40 \<le> 2 * length M + 3"
    then show "features (extract_features env self p) =
           take 40 (map (np_mean env) M @ map (np_std env) M @
             [np_mean env (concat sc), np_mean env (concat zc), np_mean env (concat rms)])"
      by (simp add: eq Let_def)
  }
qed

theorem extract_features_fixed_length_witness:
  "length (features (extract_features sample_env new_analyzer (PStr ''clip.wav''))) = 40 \<and>
   features (extract_features sample_env new_analyzer (PStr ''clip.wav'')) =
     replicate 13 2 @ replicate 13 1 @ [2000, 0.5, 0.03] @ replicate 11 0 \<and>
   extract_features sample_env new_analyzer (PStr ''missing.wav'') =
     \<lparr>features = replicate 40 0, mfcc = replicate 13 0,
      spectralCentroid = 0, zeroCrossingRate = 0, energy = 0\<rparr>"
  using extract_features_fixed_length
    [of sample_env new_analyzer "PStr ''clip.wav''" "[0, 0.5, - 0.5, 0]" 48000
        "replicate 13 [1, 3]" "[[1000, 3000]]" "[[0.25, 0.75]]" "[[0.02, 0.04]]"]
    extract_features_fixed_length
    [of sample_env new_analyzer "PStr ''missing.wav''"]
  by (simp add: sample_simps new_analyzer_def)

section \<open>Dictionaries with string keys\<close>

lemma key_eq_PStr_left: "key_eq (PStr a) k = (k = PStr a)"
  by (cases k) (auto simp: key_eq_def)

lemma key_eq_PStr_right: "key_eq k (PStr a) = (k = PStr a)"
  by (cases k) (auto simp: key_eq_def)

lemma dict_lookup_PStr: "dict_lookup d (PStr a) = map_of d (PStr a)"
  by (induction d) (auto simp: key_eq_PStr_right)

lemma dict_set_fresh: "PStr a \<notin> fst ` set d \<Longrightarrow> dict_set d (PStr a) v = d @ [(PStr a, v)]"
  by (induction d) (auto simp: key_eq_PStr_right)

lemma dict_set_map_fst:
  "map fst (dict_set d (PStr a) v) =
     (if PStr a \<in> set (map fst d) then map fst d else map fst d @ [PStr a])"
  by (induction d) (force simp: key_eq_PStr_right)+

lemma dict_set_keys: "fst ` set (dict_set d (PStr a) v) = insert (PStr a) (fst ` set d)"
proof -
  have "set (map fst (dict_set d (PStr a) v)) = insert (PStr a) (set (map fst d))"
    unfolding dict_set_map_fst by auto
  then show ?thesis by simp
qed

lemma dict_set_distinct: "distinct (map fst d) \<Longrightarrow> distinct (map fst (dict_set d (PStr a) v))"
  by (induction d) (auto simp: key_eq_PStr_right dict_set_keys)

lemma dict_set_map_of:
  "map_of (dict_set d (PStr a) v) k = (if k = PStr a then Some v else map_of d k)"
  by (induction d) (auto simp: key_eq_PStr_right)

lemma setitem_PStr: "setitem d (PStr a) v = Inr (dict_set d (PStr a) v)"
  by (simp add: setitem_def)

text \<open>The comprehension of the handler over string labels.\<close>

lemma zero_scores_strings:
  "zero_scores acc (map PStr ls) = Inr (foldl (\<lambda>d l. dict_set d (PStr l) 0) acc ls)"
  by (induction ls arbitrary: acc) (simp_all add: setitem_PStr)

lemma foldl_dict_set_keys:
  "fst ` set (foldl (\<lambda>d l. dict_set d (PStr l) v) acc ls) = fst ` set acc \<union> PStr ` set ls"
  by (induction ls arbitrary: acc) (auto simp: dict_set_keys)

lemma foldl_dict_set_distinct:
  "distinct (map fst acc) \<Longrightarrow> distinct (map fst (foldl (\<lambda>d l. dict_set d (PStr l) v) acc ls))"
  by (induction ls arbitrary: acc) (auto simp: dict_set_distinct)

lemma foldl_dict_set_map_of:
  "map_of (foldl (\<lambda>d l. dict_set d (PStr l) v) acc ls) k =
     (if k \<in> PStr ` set ls then Some v else map_of acc k)"
  by (induction ls arbitrary: acc) (auto simp: dict_set_map_of)

lemma foldl_dict_set_distinct_labels:
  "distinct ls \<Longrightarrow> PStr ` set ls \<inter> fst ` set acc = {} \<Longrightarrow>
   foldl (\<lambda>d l. dict_set d (PStr l) v) acc ls = acc @ map (\<lambda>l. (PStr l, v)) ls"
proof (induction ls arbitrary: acc)
  case Nil
  then show ?case by simp
next
  case (Cons l ls)
  from Cons.prems have fresh: "PStr l \<notin> fst ` set acc" by auto
  have "PStr ` set ls \<inter> fst ` set (acc @ [(PStr l, v)]) = {}"
    using Cons.prems by auto
  with Cons.IH [of "acc @ [(PStr l, v)]"] Cons.prems fresh show ?case
    by (simp add: dict_set_fresh)
qed

lemma dict_set_mark:
  "distinct ls \<Longrightarrow>
   dict_set (map (\<lambda>l. (PStr l, 0::real)) ls) (PStr n) 1 =
     map (\<lambda>l. (PStr l, if l = n then 1 else 0)) (if n \<in> set ls then ls else ls @ [n])"
proof (induction ls)
  case Nil
  then show ?case by simp
next
  case (Cons l ls)
  show ?case
  proof (cases "l = n")
    case True
    with Cons.prems have "n \<notin> set ls" by simp
    then have "map (\<lambda>l. (PStr l, 0::real)) ls = map (\<lambda>l. (PStr l, if l = n then 1 else 0)) ls"
      by (induction ls) auto
    with True show ?thesis by (simp add: key_eq_PStr_right)
  next
    case False
    with Cons show ?thesis by (simp add: key_eq_PStr_right)
  qed
qed

lemma neutral_fallback_strings:
  assumes "emotion_labels self = PList (map PStr ls)"
  shows "neutral_fallback self =
     Inr \<lparr>emotion = PStr ''neutral'', confidence = 1,
          scores = dict_set (foldl (\<lambda>d l. dict_set d (PStr l) 0) [] ls) (PStr ''neutral'') 1\<rparr>"
  using assms by (simp add: neutral_fallback_def py_iter_def zero_scores_strings)

lemma neutral_fallback_distinct:
  assumes "emotion_labels self = PList (map PStr ls)" and "distinct ls"
  shows "neutral_fallback self =
     Inr \<lparr>emotion = PStr ''neutral'', confidence = 1,
          scores = map (\<lambda>l. (PStr l, if l = ''neutral'' then 1 else 0))
                     (if ''neutral'' \<in> set ls then ls else ls @ [''neutral''])\<rparr>"
  using assms foldl_dict_set_distinct_labels [of ls "[]" "0::real"] dict_set_mark [of ls "''neutral''"]
  by (simp add: neutral_fallback_strings)

section \<open>The neutral fallback of the prediction\<close>

text \<open>
  Claim C3, as the code has it. When the body of the \<^verbatim>\<open>try\<close> of \<^verbatim>\<open>predict_emotion\<close> raises
  and the configured labels are strings, the result is the safe one: \<^verbatim>\<open>emotion\<close> is
  \<^verbatim>\<open>"neutral"\<close>, \<^verbatim>\<open>confidence\<close> is 1.0, and \<^verbatim>\<open>scores\<close> has one entry for every configured label
  and one for \<^verbatim>\<open>"neutral"\<close>, which is added when it is not configured; \<^verbatim>\<open>"neutral"\<close> is
  scored 1.0 and every other label 0.0.
\<close>

theorem predict_emotion_fallback:
  assumes "emotion_labels self = PList (map PStr ls)"
    and "predict_emotion_try env self f = Inl e"
  shows "\<exists>sc. predict_emotion env self f =
            Inr \<lparr>emotion = PStr ''neutral'', confidence = 1, scores = sc\<rparr> \<and>
          distinct (map fst sc) \<and>
          fst ` set sc = PStr ` insert ''neutral'' (set ls) \<and>
          length sc = card (insert ''neutral'' (set ls)) \<and>
          dict_lookup sc (PStr ''neutral'') = Some 1 \<and>
          (\<forall>l \<in> set ls. l \<noteq> ''neutral'' \<longrightarrow> dict_lookup sc (PStr l) = Some 0)"
proof -
  let ?z = "foldl (\<lambda>d l. dict_set d (PStr l) (0::real)) [] ls"
  let ?sc = "dict_set ?z (PStr ''neutral'') 1"
  have res: "predict_emotion env self f =
      Inr \<lparr>emotion = PStr ''neutral'', confidence = 1, scores = ?sc\<rparr>"
    using assms by (simp add: predict_emotion_def neutral_fallback_strings)
  have dist: "distinct (map fst ?sc)"
    by (intro dict_set_distinct foldl_dict_set_distinct) simp
  have keys: "fst ` set ?sc = PStr ` insert ''neutral'' (set ls)"
    by (simp add: dict_set_keys foldl_dict_set_keys)
  have "length ?sc = card (fst ` set ?sc)"
    using dist distinct_card [of "map fst ?sc"] by simp
  also have "\<dots> = card (insert ''neutral'' (set ls))"
    unfolding keys by (rule card_image) (simp add: inj_on_def)
  finally have len: "length ?sc = card (insert ''neutral'' (set ls))" .
  have neutral: "dict_lookup ?sc (PStr ''neutral'') = Some 1"
    by (simp add: dict_lookup_PStr dict_set_map_of)
  have others: "\<forall>l \<in> set ls. l \<noteq> ''neutral'' \<longrightarrow> dict_lookup ?sc (PStr l) = Some 0"
    by (simp add: dict_lookup_PStr dict_set_map_of foldl_dict_set_map_of)
  from res dist keys len neutral others show ?thesis by blast
qed

theorem predict_emotion_fallback_witness:
  "predict_emotion sample_env
     (new_analyzer\<lparr>model := Some [], emotion_labels := PList (map PStr [''neutral'', ''happy''])\<rparr>)
     zero_features =
   Inr \<lparr>emotion = PStr ''neutral'', confidence = 1,
        scores = [(PStr ''neutral'', 1), (PStr ''happy'', 0)]\<rparr>"
  using predict_emotion_fallback
    [of "new_analyzer\<lparr>model := Some [], emotion_labels := PList (map PStr [''neutral'', ''happy''])\<rparr>"
        "[''neutral'', ''happy'']" sample_env zero_features "IndexError ''index out of bounds''"]
  by (simp add: sample_simps py_simps analyzer_simps)

text \<open>With the labels \<^verbatim>\<open>["happy", "sad"]\<close> and a classifier with a single output, reading
  \<^verbatim>\<open>probabilities[1]\<close> raises, and the handler answers with three entries for two labels.\<close>

theorem predict_emotion_fallback_counterexample:
  "predict_emotion_try sample_env
     (new_analyzer\<lparr>model := Some [1], emotion_labels := PList [PStr ''happy'', PStr ''sad'']\<rparr>)
     zero_features = Inl (IndexError ''index out of bounds'') \<and>
   predict_emotion sample_env
     (new_analyzer\<lparr>model := Some [1], emotion_labels := PList [PStr ''happy'', PStr ''sad'']\<rparr>)
     zero_features =
   Inr \<lparr>emotion = PStr ''neutral'', confidence = 1,
        scores = [(PStr ''happy'', 0), (PStr ''sad'', 0), (PStr ''neutral'', 1)]\<rparr> \<and>
   map fst [(PStr ''happy'', 0::real), (PStr ''sad'', 0), (PStr ''neutral'', 1)] \<noteq>
     [PStr ''happy'', PStr ''sad'']"
  by (simp add: sample_simps py_simps analyzer_simps)

section \<open>The success path of the prediction\<close>

lemma fill_scores_strings:
  "distinct ls \<Longrightarrow> PStr ` set ls \<inter> fst ` set acc = {} \<Longrightarrow> k \<le> length ps \<Longrightarrow>
   fill_scores acc ps (zip [k..<k + length ls] (map PStr ls)) =
     (if k + length ls \<le> length ps then Inr (acc @ zip (map PStr ls) (drop k ps))
      else Inl (IndexError ''index out of bounds''))"
proof (induction ls arbitrary: acc k)
  case Nil
  then show ?case by simp
next
  case (Cons l ls)
  from Cons.prems have fresh: "PStr l \<notin> fst ` set acc" by auto
  have disj: "PStr ` set ls \<inter> fst ` set (acc @ [(PStr l, ps ! k)]) = {}"
    using Cons.prems by auto
  have upt: "[k..<Suc (k + length ls)] = k # [Suc k..<Suc (k + length ls)]"
    by (simp add: upt_rec)
  show ?case
  proof (cases "k < length ps")
    case True
    then have "drop k ps = ps ! k # drop (Suc k) ps"
      by (simp add: Cons_nth_drop_Suc)
    with True Cons.IH [OF _ disj, of "Suc k"] Cons.prems fresh show ?thesis
      by (simp add: upt setitem_PStr dict_set_fresh del: upt_Suc)
  next
    case False
    then show ?thesis by (simp add: upt del: upt_Suc)
  qed
qed

lemma argmax_from_first_max:
  assumes "best < i" and "drop i ps = xs" and "i \<le> length ps" and "ps ! best = v"
    and "\<forall>j<i. ps ! j \<le> v" and "\<forall>j<best. ps ! j < v"
  shows "argmax_from xs i best v < length ps \<and>
         (\<forall>j<length ps. ps ! j \<le> ps ! argmax_from xs i best v) \<and>
         (\<forall>j<argmax_from xs i best v. ps ! j < ps ! argmax_from xs i best v)"
  using assms
proof (induction xs arbitrary: i best v)
  case Nil
  then have "length ps = i" by simp
  with Nil show ?case by simp
next
  case (Cons x xs)
  from Cons.prems have i: "i < length ps"
    by (metis drop_all leI list.distinct(1))
  with Cons.prems have x: "ps ! i = x" and rest: "drop (Suc i) ps = xs"
    by (simp_all add: Cons_nth_drop_Suc [symmetric])
  show ?case
  proof (cases "v < x")
    case True
    have "\<forall>j<Suc i. ps ! j \<le> x"
      using Cons.prems(5) True x by (auto simp: less_Suc_eq intro: less_imp_le order_trans)
    moreover have "\<forall>j<i. ps ! j < x"
      using Cons.prems(5) True by (auto intro: le_less_trans)
    ultimately show ?thesis
      using Cons.IH [of i "Suc i" x] rest i x True by simp
  next
    case False
    have "\<forall>j<Suc i. ps ! j \<le> v"
      using Cons.prems(5) False x by (auto simp: less_Suc_eq)
    then show ?thesis
      using Cons.IH [of best "Suc i" v] Cons.prems rest i False by simp
  qed
qed

lemma np_argmax_first_max:
  assumes "np_argmax ps = Inr d"
  shows "d < length ps \<and> (\<forall>j<length ps. ps ! j \<le> ps ! d) \<and> (\<forall>j<d. ps ! j < ps ! d)"
proof (cases ps)
  case Nil
  with assms show ?thesis by simp
next
  case (Cons x xs)
  with assms have d: "d = argmax_from xs 1 0 x" by simp
  from argmax_from_first_max [of 0 1 ps xs x] Cons show ?thesis
    unfolding d by simp
qed

lemma predict_emotion_try_strings:
  assumes "emotion_labels self = PList (map PStr ls)" and "distinct ls"
    and "predict_emotion_try env self f = Inr r"
  shows "\<exists>m ps d. model self = Some m \<and> keras_predict env m (features f) = Inr ps \<and>
           np_argmax ps = Inr d \<and> d < length ls \<and> length ls \<le> length ps \<and>
           r = \<lparr>emotion = PStr (ls ! d), confidence = ps ! d, scores = zip (map PStr ls) ps\<rparr>"
proof -
  have fill: "fill_scores [] ps (enumerate (map PStr ls)) =
     (if length ls \<le> length ps then Inr (zip (map PStr ls) ps)
      else Inl (IndexError ''index out of bounds''))" for ps
    using fill_scores_strings [where ls = ls and acc = "[]" and k = 0 and ps = ps] assms(2)
    by (simp add: enumerate_def)
  from assms(1,3) show ?thesis
    by (auto simp: predict_emotion_try_def py_iter_def py_index_def fill
        split: option.splits sum.splits if_splits)
qed

text \<open>
  Claim C4, as the code has it. For \<open>L\<close> distinct string labels and a classifier whose
  outputs are probabilities, \<^verbatim>\<open>predict_emotion\<close> returns a \<^verbatim>\<open>scores\<close> mapping whose values
  lie in \<open>[0, 1]\<close>. Its keys are the \<open>L\<close> labels in their order, on the success path and on
  the failure path when \<^verbatim>\<open>"neutral"\<close> is configured; on the failure path with \<^verbatim>\<open>"neutral"\<close>
  not configured they are the \<open>L\<close> labels followed by \<^verbatim>\<open>"neutral"\<close>, \<open>L + 1\<close> entries.
\<close>

theorem predict_emotion_scores_shape:
  assumes labels: "emotion_labels self = PList (map PStr ls)" and dist: "distinct ls"
    and probs: "\<forall>m ps. model self = Some m \<and> keras_predict env m (features f) = Inr ps \<longrightarrow>
                  (\<forall>p \<in> set ps. 0 \<le> p \<and> p \<le> 1)"
  shows "\<exists>r. predict_emotion env self f = Inr r \<and>
           (\<forall>v \<in> snd ` set (scores r). 0 \<le> v \<and> v \<le> 1) \<and>
           map fst (scores r) =
             map PStr (if isl (predict_emotion_try env self f) \<and> ''neutral'' \<notin> set ls
                       then ls @ [''neutral''] else ls) \<and>
           length (scores r) =
             (if isl (predict_emotion_try env self f) \<and> ''neutral'' \<notin> set ls
              then length ls + 1 else length ls)"
proof (cases "predict_emotion_try env self f")
  case (Inr r)
  from predict_emotion_try_strings [OF labels dist Inr] obtain m ps d where
    m: "model self = Some m" and ps: "keras_predict env m (features f) = Inr ps" and len: "length ls \<le> length ps"
    and r: "r = \<lparr>emotion = PStr (ls ! d), confidence = ps ! d, scores = zip (map PStr ls) ps\<rparr>"
    by blast
  from probs m ps have range: "\<forall>p \<in> set ps. 0 \<le> p \<and> p \<le> 1" by blast
  have "snd ` set (zip (map PStr ls) ps) \<subseteq> set ps"
    by (auto dest: set_zip_rightD)
  with range have "\<forall>v \<in> snd ` set (scores r). 0 \<le> v \<and> v \<le> 1"
    unfolding r by auto
  moreover have "map fst (scores r) = map PStr ls"
    using len unfolding r by (simp add: map_fst_zip_take)
  moreover have "length (scores r) = length ls"
    using len unfolding r by simp
  ultimately show ?thesis
    using Inr by (simp add: predict_emotion_def)
next
  case (Inl e)
  let ?keys = "if ''neutral'' \<in> set ls then ls else ls @ [''neutral'']"
  let ?sc = "map (\<lambda>l. (PStr l, if l = ''neutral'' then 1 else 0::real)) ?keys"
  have "predict_emotion env self f =
      Inr \<lparr>emotion = PStr ''neutral'', confidence = 1, scores = ?sc\<rparr>"
    using Inl neutral_fallback_distinct [OF labels dist] by (simp add: predict_emotion_def)
  moreover have "\<forall>v \<in> snd ` set ?sc. 0 \<le> v \<and> v \<le> 1" by auto
  moreover have "map fst ?sc = map PStr ?keys" by (simp add: comp_def)
  moreover have "length ?sc = length ?keys" by simp
  ultimately show ?thesis
    using Inl by (auto simp: comp_def)
qed

theorem predict_emotion_scores_shape_witness:
  "predict_emotion sample_env
     (new_analyzer\<lparr>model := Some [0.25, 0.75],
        emotion_labels := PList (map PStr [''neutral'', ''happy''])\<rparr>)
     zero_features =
   Inr \<lparr>emotion = PStr ''happy'', confidence = 0.75,
        scores = [(PStr ''neutral'', 0.25), (PStr ''happy'', 0.75)]\<rparr>"
  using predict_emotion_scores_shape
    [of "new_analyzer\<lparr>model := Some [0.25, 0.75],
           emotion_labels := PList (map PStr [''neutral'', ''happy''])\<rparr>"
        "[''neutral'', ''happy'']" sample_env zero_features]
  by (simp add: sample_simps py_simps analyzer_simps)

text \<open>Three configured labels and a classifier with two outputs: the prediction step fails
  at the third label and the result has four entries.\<close>

theorem predict_emotion_scores_shape_counterexample:
  "predict_emotion sample_env
     (new_analyzer\<lparr>model := Some [0.5, 0.5],
        emotion_labels := PList [PStr ''happy'', PStr ''sad'', PStr ''angry'']\<rparr>)
     zero_features =
   Inr \<lparr>emotion = PStr ''neutral'', confidence = 1,
        scores = [(PStr ''happy'', 0), (PStr ''sad'', 0), (PStr ''angry'', 0),
                  (PStr ''neutral'', 1)]\<rparr> \<and>
   length [(PStr ''happy'', 0::real), (PStr ''sad'', 0), (PStr ''angry'', 0),
           (PStr ''neutral'', 1)] \<noteq>
     length [PStr ''happy'', PStr ''sad'', PStr ''angry'']"
  by (simp add: sample_simps py_simps analyzer_simps)

text \<open>
  Claim C6. For distinct string labels, every result of \<^verbatim>\<open>predict_emotion\<close> satisfies
  \<^verbatim>\<open>confidence == scores[emotion]\<close>, and \<^verbatim>\<open>emotion\<close> is the key of the first entry of
  \<^verbatim>\<open>scores\<close> that carries the largest score: no entry scores more and every entry before it
  scores less. The entries stand in the configured label order, so the first such entry is
  the one of lowest label index.
\<close>

theorem predict_emotion_argmax:
  assumes labels: "emotion_labels self = PList (map PStr ls)" and dist: "distinct ls"
    and res: "predict_emotion env self f = Inr r"
  shows "dict_lookup (scores r) (emotion r) = Some (confidence r) \<and>
         (\<exists>i<length (scores r).
            scores r ! i = (emotion r, confidence r) \<and>
            (\<forall>j<length (scores r). snd (scores r ! j) \<le> confidence r) \<and>
            (\<forall>j<i. snd (scores r ! j) < confidence r)) \<and>
         length ls \<le> length (scores r) \<and>
         (\<forall>j<length ls. fst (scores r ! j) = PStr (ls ! j))"
proof (cases "predict_emotion_try env self f")
  case (Inr r')
  with res have "r' = r" by (simp add: predict_emotion_def)
  with predict_emotion_try_strings [OF labels dist Inr] obtain ps d where
    arg: "np_argmax ps = Inr d" and d: "d < length ls" and len: "length ls \<le> length ps"
    and r: "r = \<lparr>emotion = PStr (ls ! d), confidence = ps ! d, scores = zip (map PStr ls) ps\<rparr>"
    by blast
  from np_argmax_first_max [OF arg] have
    max: "\<forall>j<length ps. ps ! j \<le> ps ! d" and first: "\<forall>j<d. ps ! j < ps ! d"
    by blast+
  have dk: "distinct (map fst (zip (map PStr ls) ps))"
    using dist len by (simp add: map_fst_zip_take distinct_map inj_on_def)
  have mem: "(PStr (ls ! d), ps ! d) \<in> set (zip (map PStr ls) ps)"
    using d len by (auto simp: set_zip intro!: exI [of _ d])
  have "dict_lookup (scores r) (emotion r) = Some (confidence r)"
    using dk mem unfolding r by (simp add: dict_lookup_PStr)
  moreover have "\<exists>i<length (scores r).
            scores r ! i = (emotion r, confidence r) \<and>
            (\<forall>j<length (scores r). snd (scores r ! j) \<le> confidence r) \<and>
            (\<forall>j<i. snd (scores r ! j) < confidence r)"
    using d len max first unfolding r by (intro exI [of _ d]) simp
  moreover have "length ls \<le> length (scores r)"
    using len unfolding r by simp
  moreover have "\<forall>j<length ls. fst (scores r ! j) = PStr (ls ! j)"
    using len unfolding r by simp
  ultimately show ?thesis by blast
next
  case (Inl e)
  define ks where "ks = (if ''neutral'' \<in> set ls then ls else ls @ [''neutral''])"
  define val where "val = (\<lambda>l. if l = ''neutral'' then 1 else 0::real)"
  define sc where "sc = map (\<lambda>l. (PStr l, val l)) ks"
  have r: "r = \<lparr>emotion = PStr ''neutral'', confidence = 1, scores = sc\<rparr>"
    using Inl res neutral_fallback_distinct [OF labels dist]
    by (simp add: predict_emotion_def sc_def ks_def val_def)
  have dkeys: "distinct ks" using dist by (simp add: ks_def)
  have "''neutral'' \<in> set ks" by (simp add: ks_def)
  then obtain i where i: "i < length ks" and ki: "ks ! i = ''neutral''"
    by (auto simp: in_set_conv_nth)
  have before: "ks ! j \<noteq> ''neutral''" if "j < i" for j
    using that dkeys i ki nth_eq_iff_index_eq [of ks j i] by auto
  have le: "val l \<le> 1" for l by (simp add: val_def)
  have lt: "val l < 1" if "l \<noteq> ''neutral''" for l using that by (simp add: val_def)
  have vi: "val ''neutral'' = 1" by (simp add: val_def)
  have len: "length sc = length ks" by (simp add: sc_def)
  have nth: "sc ! j = (PStr (ks ! j), val (ks ! j))" if "j < length ks" for j
    using that by (simp add: sc_def)
  have dsc: "distinct (map fst sc)"
    using dkeys by (simp add: sc_def comp_def distinct_map inj_on_def)
  have "(PStr ''neutral'', 1) \<in> set sc"
    using i ki nth [OF i] vi len by (metis nth_mem)
  with dsc have lookup: "map_of sc (PStr ''neutral'') = Some 1"
    by simp
  have c1: "dict_lookup (scores r) (emotion r) = Some (confidence r)"
    using lookup by (simp add: r dict_lookup_PStr)
  have "sc ! i = (PStr ''neutral'', 1) \<and> (\<forall>j<length sc. snd (sc ! j) \<le> 1) \<and>
        (\<forall>j<i. snd (sc ! j) < 1)"
    using i ki vi le lt before nth len by auto
  with i len have c2: "\<exists>i<length (scores r).
            scores r ! i = (emotion r, confidence r) \<and>
            (\<forall>j<length (scores r). snd (scores r ! j) \<le> confidence r) \<and>
            (\<forall>j<i. snd (scores r ! j) < confidence r)"
    by (simp add: r) blast
  have lks: "length ls \<le> length ks" by (simp add: ks_def)
  have kls: "ks ! j = ls ! j" if "j < length ls" for j
    using that by (simp add: ks_def nth_append)
  have c3: "length ls \<le> length (scores r)"
    using lks len by (simp add: r)
  have c4: "\<forall>j<length ls. fst (scores r ! j) = PStr (ls ! j)"
    using lks kls nth by (simp add: r)
  from c1 c2 c3 c4 show ?thesis by blast
qed

theorem predict_emotion_argmax_witness:
  "predict_emotion sample_env
     (new_analyzer\<lparr>model := Some [0.2, 0.4, 0.4],
        emotion_labels := PList (map PStr [''neutral'', ''happy'', ''sad''])\<rparr>)
     zero_features =
   Inr \<lparr>emotion = PStr ''happy'', confidence = 0.4,
        scores = [(PStr ''neutral'', 0.2), (PStr ''happy'', 0.4), (PStr ''sad'', 0.4)]\<rparr> \<and>
   dict_lookup [(PStr ''neutral'', 0.2), (PStr ''happy'', 0.4), (PStr ''sad'', 0.4::real)]
     (PStr ''happy'') = Some 0.4"
  using predict_emotion_argmax
    [of "new_analyzer\<lparr>model := Some [0.2, 0.4, 0.4],
           emotion_labels := PList (map PStr [''neutral'', ''happy'', ''sad''])\<rparr>"
        "[''neutral'', ''happy'', ''sad'']" sample_env zero_features
        "\<lparr>emotion = PStr ''happy'', confidence = 0.4,
          scores = [(PStr ''neutral'', 0.2), (PStr ''happy'', 0.4), (PStr ''sad'', 0.4)]\<rparr>"]
  by (simp add: sample_simps py_simps analyzer_simps)


section \<open>Initialisation\<close>

lemma py_get_dict: "py_get (PDict kvs) k d = Inr (dict_get kvs k d)"
  by (simp add: py_get_def)

lemma py_get_not_dict: "(\<forall>kvs. v \<noteq> PDict kvs) \<Longrightarrow> isl (py_get v k d)"
  by (cases v) (simp_all add: py_get_def)

lemma create_dummy_model_fields:
  "model_path (snd (create_dummy_model env s)) = model_path s \<and>
   model_type (snd (create_dummy_model env s)) = model_type s \<and>
   emotion_labels (snd (create_dummy_model env s)) = emotion_labels s"
  by (simp add: create_dummy_model_def split: sum.splits)

lemma load_model_fields:
  "model_path (snd (load_model env s)) = model_path s \<and>
   model_type (snd (load_model env s)) = model_type s \<and>
   emotion_labels (snd (load_model env s)) = emotion_labels s"
  by (simp add: load_model_def create_dummy_model_fields Let_def
      split: pyval.splits sum.splits bool.splits)

lemma initialize_dict:
  "initialize env (PDict kvs) s =
     load_model env
       (s\<lparr>model_path := dict_get kvs ''modelPath'' (PStr ''./models/audio-emotion''),
          model_type := dict_get kvs ''modelType'' (PStr ''fast''),
          emotion_labels := dict_get kvs ''emotionLabels'' default_labels\<rparr>)"
  by (simp add: initialize_def py_get_dict Let_def)

lemma create_dummy_model_returns:
  assumes "emotion_labels s = PList xs"
    and "keras_Sequential env (dummy_layers (model_type s) (length xs)) = Inr m"
    and "\<not> isl (keras_compile env m)"
  shows "fst (create_dummy_model env s) = Inr ()"
proof -
  from assms(3) obtain m' where "keras_compile env m = Inr m'"
    by (cases "keras_compile env m") simp_all
  with assms(1,2) show ?thesis
    by (simp add: create_dummy_model_def py_len_def)
qed

lemma load_model_returns:
  assumes "model_path s = PStr dir"
    and "path_exists env (artifact env dir (model_type s)) = Inr b"
    and "(b \<and> \<not> isl (keras_load_model env (artifact env dir (model_type s)))) \<or>
         (\<exists>xs m. emotion_labels s = PList xs \<and>
            keras_Sequential env (dummy_layers (model_type s) (length xs)) = Inr m \<and>
            \<not> isl (keras_compile env m))"
  shows "fst (load_model env s) = Inr ()"
proof (cases "b \<and> \<not> isl (keras_load_model env (artifact env dir (model_type s)))")
  case True
  then obtain m0 where "keras_load_model env (artifact env dir (model_type s)) = Inr m0"
    by (cases "keras_load_model env (artifact env dir (model_type s))") simp_all
  with True assms(1,2) show ?thesis
    by (simp add: load_model_def)
next
  case False
  with assms(3) obtain xs m where "emotion_labels s = PList xs"
    and "keras_Sequential env (dummy_layers (model_type s) (length xs)) = Inr m"
    and "\<not> isl (keras_compile env m)"
    by blast
  then have "fst (create_dummy_model env s) = Inr ()"
    by (rule create_dummy_model_returns)
  with assms(1,2) show ?thesis
    by (simp add: load_model_def split: sum.splits bool.splits)
qed

lemma load_model_exists_raises:
  assumes "model_path s = PStr dir"
    and "path_exists env (artifact env dir (model_type s)) = Inl e"
  shows "fst (load_model env s) = Inl e"
  using assms by (simp add: load_model_def)

lemma initialize_returns:
  assumes "dict_get kvs ''modelPath'' (PStr ''./models/audio-emotion'') = PStr dir"
    and "path_exists env (artifact env dir (dict_get kvs ''modelType'' (PStr ''fast''))) = Inr b"
    and "(b \<and> \<not> isl (keras_load_model env
                    (artifact env dir (dict_get kvs ''modelType'' (PStr ''fast''))))) \<or>
         (\<exists>xs m. dict_get kvs ''emotionLabels'' default_labels = PList xs \<and>
            keras_Sequential env
              (dummy_layers (dict_get kvs ''modelType'' (PStr ''fast'')) (length xs)) = Inr m \<and>
            \<not> isl (keras_compile env m))"
  shows "fst (initialize env (PDict kvs) s) = Inr ()"
  unfolding initialize_dict
  using assms by (intro load_model_returns [where dir = dir and b = b]) simp_all

lemma initialize_exists_raises:
  assumes "dict_get kvs ''modelPath'' (PStr ''./models/audio-emotion'') = PStr dir"
    and "path_exists env (artifact env dir (dict_get kvs ''modelType'' (PStr ''fast''))) = Inl e"
  shows "fst (initialize env (PDict kvs) s) = Inl e"
  unfolding initialize_dict
  using assms by (intro load_model_exists_raises [where dir = dir]) simp_all

lemma initialize_not_dict: "(\<forall>kvs. config \<noteq> PDict kvs) \<Longrightarrow> isl (fst (initialize env config s))"
  using py_get_not_dict [of config "''modelPath''" "PStr ''./models/audio-emotion''"]
  by (auto simp: initialize_def isl_def)

text \<open>
  Claim C10, as the code has it. For a config object the three lookups return, and a
  missing \<^verbatim>\<open>modelPath\<close> becomes \<^verbatim>\<open>'./models/audio-emotion'\<close>, a missing \<^verbatim>\<open>modelType\<close> becomes
  \<^verbatim>\<open>'fast'\<close> and missing \<^verbatim>\<open>emotionLabels\<close> become the eight default labels, in the analyzer
  that \<^verbatim>\<open>initialize\<close> leaves behind whether it returns or raises. It returns when the model
  path, given or default, is a string whose artifact can be examined, and either the
  artifact exists and loads or the labels, given or default, are a list for which the
  runtime builds and compiles the fallback network. It raises when examining the artifact
  raises.
\<close>

theorem initialize_defaults:
  "(map_of kvs (PStr ''modelPath'') = None \<longrightarrow>
      model_path (snd (initialize env (PDict kvs) self)) = PStr ''./models/audio-emotion'') \<and>
   (map_of kvs (PStr ''modelType'') = None \<longrightarrow>
      model_type (snd (initialize env (PDict kvs) self)) = PStr ''fast'') \<and>
   (map_of kvs (PStr ''emotionLabels'') = None \<longrightarrow>
      emotion_labels (snd (initialize env (PDict kvs) self)) =
        PList [PStr ''neutral'', PStr ''calm'', PStr ''happy'', PStr ''sad'',
               PStr ''angry'', PStr ''fearful'', PStr ''disgust'', PStr ''surprised'']) \<and>
   \<not> isl (py_get (PDict kvs) ''modelPath'' (PStr ''./models/audio-emotion'')) \<and>
   \<not> isl (py_get (PDict kvs) ''modelType'' (PStr ''fast'')) \<and>
   \<not> isl (py_get (PDict kvs) ''emotionLabels'' default_labels) \<and>
   ((\<exists>dir b. dict_get kvs ''modelPath'' (PStr ''./models/audio-emotion'') = PStr dir \<and>
       path_exists env (artifact env dir (dict_get kvs ''modelType'' (PStr ''fast''))) = Inr b \<and>
       ((b \<and> \<not> isl (keras_load_model env
                     (artifact env dir (dict_get kvs ''modelType'' (PStr ''fast''))))) \<or>
        (\<exists>xs m. dict_get kvs ''emotionLabels'' default_labels = PList xs \<and>
           keras_Sequential env
             (dummy_layers (dict_get kvs ''modelType'' (PStr ''fast'')) (length xs)) = Inr m \<and>
           \<not> isl (keras_compile env m)))) \<longrightarrow>
      fst (initialize env (PDict kvs) self) = Inr ()) \<and>
   (\<forall>dir e. dict_get kvs ''modelPath'' (PStr ''./models/audio-emotion'') = PStr dir \<and>
       path_exists env (artifact env dir (dict_get kvs ''modelType'' (PStr ''fast''))) = Inl e \<longrightarrow>
      fst (initialize env (PDict kvs) self) = Inl e)"
proof (intro conjI impI allI)
  assume "map_of kvs (PStr ''modelPath'') = None"
  then show "model_path (snd (initialize env (PDict kvs) self)) = PStr ''./models/audio-emotion''"
    by (simp add: initialize_dict load_model_fields dict_get_def)
next
  assume "map_of kvs (PStr ''modelType'') = None"
  then show "model_type (snd (initialize env (PDict kvs) self)) = PStr ''fast''"
    by (simp add: initialize_dict load_model_fields dict_get_def)
next
  assume "map_of kvs (PStr ''emotionLabels'') = None"
  then show "emotion_labels (snd (initialize env (PDict kvs) self)) =
        PList [PStr ''neutral'', PStr ''calm'', PStr ''happy'', PStr ''sad'',
               PStr ''angry'', PStr ''fearful'', PStr ''disgust'', PStr ''surprised'']"
    by (simp add: initialize_dict load_model_fields default_labels_def dict_get_def)
next
  show "\<not> isl (py_get (PDict kvs) ''modelPath'' (PStr ''./models/audio-emotion''))"
    by (simp add: py_get_dict)
next
  show "\<not> isl (py_get (PDict kvs) ''modelType'' (PStr ''fast''))"
    by (simp add: py_get_dict)
next
  show "\<not> isl (py_get (PDict kvs) ''emotionLabels'' default_labels)"
    by (simp add: py_get_dict)
next
  assume "\<exists>dir b. dict_get kvs ''modelPath'' (PStr ''./models/audio-emotion'') = PStr dir \<and>
       path_exists env (artifact env dir (dict_get kvs ''modelType'' (PStr ''fast''))) = Inr b \<and>
       ((b \<and> \<not> isl (keras_load_model env
                     (artifact env dir (dict_get kvs ''modelType'' (PStr ''fast''))))) \<or>
        (\<exists>xs m. dict_get kvs ''emotionLabels'' default_labels = PList xs \<and>
           keras_Sequential env
             (dummy_layers (dict_get kvs ''modelType'' (PStr ''fast'')) (length xs)) = Inr m \<and>
           \<not> isl (keras_compile env m)))"
  then obtain dir b where
    "dict_get kvs ''modelPath'' (PStr ''./models/audio-emotion'') = PStr dir"
    "path_exists env (artifact env dir (dict_get kvs ''modelType'' (PStr ''fast''))) = Inr b"
    "(b \<and> \<not> isl (keras_load_model env
                    (artifact env dir (dict_get kvs ''modelType'' (PStr ''fast''))))) \<or>
     (\<exists>xs m. dict_get kvs ''emotionLabels'' default_labels = PList xs \<and>
        keras_Sequential env
          (dummy_layers (dict_get kvs ''modelType'' (PStr ''fast'')) (length xs)) = Inr m \<and>
        \<not> isl (keras_compile env m))"
    by blast
  then show "fst (initialize env (PDict kvs) self) = Inr ()"
    by (rule initialize_returns)
next
  fix dir e
  assume "dict_get kvs ''modelPath'' (PStr ''./models/audio-emotion'') = PStr dir \<and>
       path_exists env (artifact env dir (dict_get kvs ''modelType'' (PStr ''fast''))) = Inl e"
  then show "fst (initialize env (PDict kvs) self) = Inl e"
    by (intro initialize_exists_raises [where dir = dir]) simp_all
qed

theorem initialize_defaults_witness:
  "model_path (snd (initialize sample_env (PDict []) new_analyzer)) = PStr ''./models/audio-emotion'' \<and>
   model_type (snd (initialize sample_env (PDict []) new_analyzer)) = PStr ''fast'' \<and>
   emotion_labels (snd (initialize sample_env (PDict []) new_analyzer)) =
     PList [PStr ''neutral'', PStr ''calm'', PStr ''happy'', PStr ''sad'',
            PStr ''angry'', PStr ''fearful'', PStr ''disgust'', PStr ''surprised''] \<and>
   fst (initialize sample_env (PDict []) new_analyzer) = Inr () \<and>
   model (snd (initialize sample_env (PDict []) new_analyzer)) =
     Some [1 / 8, 1 / 8, 1 / 8, 1 / 8, 1 / 8, 1 / 8, 1 / 8, 1 / 8]"
  using initialize_defaults [of "[]" sample_env new_analyzer]
  by (simp add: sample_simps py_simps analyzer_simps)

text \<open>A config object that gives only a model path of 256 characters omits the other two
  keys; the defaults are substituted, and \<^verbatim>\<open>initialize\<close> fails when the artifact is
  examined.\<close>

theorem initialize_defaults_counterexample:
  "fst (initialize sample_env
          (PDict [(PStr ''modelPath'', PStr (replicate 256 (CHR ''a'')))]) new_analyzer) =
     Inl (OSError ''[Errno 36] File name too long'') \<and>
   model_type (snd (initialize sample_env
          (PDict [(PStr ''modelPath'', PStr (replicate 256 (CHR ''a'')))]) new_analyzer)) =
     PStr ''fast''"
  by (simp add: sample_simps py_simps analyzer_simps)

section \<open>The response to an init command\<close>

lemma handle_line_init:
  assumes "json_loads env (str_strip env line) = Inr (PDict req)"
    and "map_of req (PStr ''action'') = Some (PStr ''init'')"
    and "map_of req (PStr ''config'') = Some config"
  shows "handle_line env a line =
     (case fst (initialize env config a) of
        Inl e \<Rightarrow> Inl e
      | Inr u \<Rightarrow> Inr (PDict [(PStr ''status'', PStr ''initialized'')]),
      snd (initialize env config a))"
  using assms
  by (simp add: handle_line_def py_get_def dict_get_def py_getitem_def split: prod.splits sum.splits)

text \<open>
  Claim C5, as the code has it. The response to an init command is \<^verbatim>\<open>{"status":
  "initialized"}\<close> when \<^verbatim>\<open>initialize\<close> returns (the status object serialises) and
  \<^verbatim>\<open>{"error": str(e)}\<close> when it raises \<open>e\<close>. It returns for every config payload that is an object
  whose model path, given or default, is a string whose artifact can be examined, when
  either the artifact exists and loads or the labels, given or default, are a list for
  which the runtime builds and compiles the fallback network. It raises for every payload
  that is not an object and whenever examining the artifact raises; the response is then
  the error object and not the status object.
\<close>

theorem init_command_response:
  assumes "json_loads env (str_strip env line) = Inr (PDict req)"
    and "map_of req (PStr ''action'') = Some (PStr ''init'')"
    and "map_of req (PStr ''config'') = Some config"
    and "json_dumps_raises env (PDict [(PStr ''status'', PStr ''initialized'')]) = None"
  shows "fst (process_line env a line) =
           (case fst (initialize env config a) of
              Inr u \<Rightarrow> PDict [(PStr ''status'', PStr ''initialized'')]
            | Inl e \<Rightarrow> PDict [(PStr ''error'', PStr (str_exn e))]) \<and>
         ((\<exists>kvs dir b. config = PDict kvs \<and>
             dict_get kvs ''modelPath'' (PStr ''./models/audio-emotion'') = PStr dir \<and>
             path_exists env (artifact env dir (dict_get kvs ''modelType'' (PStr ''fast''))) = Inr b \<and>
             ((b \<and> \<not> isl (keras_load_model env
                           (artifact env dir (dict_get kvs ''modelType'' (PStr ''fast''))))) \<or>
              (\<exists>xs m. dict_get kvs ''emotionLabels'' default_labels = PList xs \<and>
                 keras_Sequential env
                   (dummy_layers (dict_get kvs ''modelType'' (PStr ''fast'')) (length xs)) = Inr m \<and>
                 \<not> isl (keras_compile env m)))) \<longrightarrow>
            fst (initialize env config a) = Inr () \<and>
            fst (process_line env a line) = PDict [(PStr ''status'', PStr ''initialized'')]) \<and>
         ((\<forall>kvs. config \<noteq> PDict kvs) \<longrightarrow>
            isl (fst (initialize env config a)) \<and>
            fst (process_line env a line) \<noteq> PDict [(PStr ''status'', PStr ''initialized'')]) \<and>
         (\<forall>kvs dir e. config = PDict kvs \<and>
             dict_get kvs ''modelPath'' (PStr ''./models/audio-emotion'') = PStr dir \<and>
             path_exists env (artifact env dir (dict_get kvs ''modelType'' (PStr ''fast''))) = Inl e \<longrightarrow>
            fst (initialize env config a) = Inl e \<and>
            fst (process_line env a line) = PDict [(PStr ''error'', PStr (str_exn e))])"
proof -
  have resp: "fst (process_line env a line) =
           (case fst (initialize env config a) of
              Inr u \<Rightarrow> PDict [(PStr ''status'', PStr ''initialized'')]
            | Inl e \<Rightarrow> PDict [(PStr ''error'', PStr (str_exn e))])"
    using assms(4)
    by (simp add: process_line_cases handle_line_init [OF assms(1,2,3)] split: sum.splits)
  have ok: "fst (initialize env config a) = Inr () \<and>
            fst (process_line env a line) = PDict [(PStr ''status'', PStr ''initialized'')]"
    if "\<exists>kvs dir b. config = PDict kvs \<and>
             dict_get kvs ''modelPath'' (PStr ''./models/audio-emotion'') = PStr dir \<and>
             path_exists env (artifact env dir (dict_get kvs ''modelType'' (PStr ''fast''))) = Inr b \<and>
             ((b \<and> \<not> isl (keras_load_model env
                           (artifact env dir (dict_get kvs ''modelType'' (PStr ''fast''))))) \<or>
              (\<exists>xs m. dict_get kvs ''emotionLabels'' default_labels = PList xs \<and>
                 keras_Sequential env
                   (dummy_layers (dict_get kvs ''modelType'' (PStr ''fast'')) (length xs)) = Inr m \<and>
                 \<not> isl (keras_compile env m)))"
  proof -
    from that obtain kvs dir b where c: "config = PDict kvs"
      and p: "dict_get kvs ''modelPath'' (PStr ''./models/audio-emotion'') = PStr dir"
      and x: "path_exists env (artifact env dir (dict_get kvs ''modelType'' (PStr ''fast''))) = Inr b"
      and m: "(b \<and> \<not> isl (keras_load_model env
                           (artifact env dir (dict_get kvs ''modelType'' (PStr ''fast''))))) \<or>
              (\<exists>xs m. dict_get kvs ''emotionLabels'' default_labels = PList xs \<and>
                 keras_Sequential env
                   (dummy_layers (dict_get kvs ''modelType'' (PStr ''fast'')) (length xs)) = Inr m \<and>
                 \<not> isl (keras_compile env m))"
      by blast
    have "fst (initialize env config a) = Inr ()"
      unfolding c by (rule initialize_returns [OF p x m])
    then show ?thesis by (simp add: resp)
  qed
  have bad: "isl (fst (initialize env config a)) \<and>
            fst (process_line env a line) \<noteq> PDict [(PStr ''status'', PStr ''initialized'')]"
    if "\<forall>kvs. config \<noteq> PDict kvs"
  proof -
    from initialize_not_dict [OF that] have "isl (fst (initialize env config a))" .
    then show ?thesis by (auto simp: resp isl_def)
  qed
  have raises: "fst (initialize env config a) = Inl e \<and>
            fst (process_line env a line) = PDict [(PStr ''error'', PStr (str_exn e))]"
    if "config = PDict kvs \<and>
        dict_get kvs ''modelPath'' (PStr ''./models/audio-emotion'') = PStr dir \<and>
        path_exists env (artifact env dir (dict_get kvs ''modelType'' (PStr ''fast''))) = Inl e"
    for kvs dir e
  proof -
    from that have "fst (initialize env config a) = Inl e"
      by (auto intro: initialize_exists_raises)
    then show ?thesis by (simp add: resp)
  qed
  from resp ok bad raises show ?thesis by blast
qed

theorem init_command_response_witness:
  "fst (process_line sample_env new_analyzer line_init_two) =
     PDict [(PStr ''status'', PStr ''initialized'')] \<and>
   fst (initialize sample_env
          (PDict [(PStr ''emotionLabels'', PList [PStr ''neutral'', PStr ''happy''])])
          new_analyzer) = Inr ()"
  using init_command_response
    [of sample_env line_init_two
        "[(PStr ''action'', PStr ''init''),
          (PStr ''config'',
             PDict [(PStr ''emotionLabels'', PList [PStr ''neutral'', PStr ''happy''])])]"
        "PDict [(PStr ''emotionLabels'', PList [PStr ''neutral'', PStr ''happy''])]"
        new_analyzer]
  by (simp add: sample_simps py_simps analyzer_simps)

text \<open>The payload \<^verbatim>\<open>null\<close> has no \<^verbatim>\<open>get\<close>: \<^verbatim>\<open>initialize\<close> raises and the loop answers with the error.\<close>

theorem init_command_response_counterexample:
  "fst (initialize sample_env PNone new_analyzer) =
     Inl (AttributeError (quoted ''NoneType'' @ '' object has no attribute '' @ quoted ''get'')) \<and>
   fst (process_line sample_env new_analyzer line_init_null) =
     PDict [(PStr ''error'',
             PStr (quoted ''NoneType'' @ '' object has no attribute '' @ quoted ''get''))] \<and>
   fst (process_line sample_env new_analyzer line_init_null) \<noteq>
     PDict [(PStr ''status'', PStr ''initialized'')]"
  by (simp add: sample_simps py_simps analyzer_simps)

section \<open>Analysis\<close>

lemma handle_line_keeps_analyzer:
  assumes "\<forall>req. json_loads env (str_strip env line) = Inr req \<longrightarrow>
             py_get req ''action'' PNone \<noteq> Inr (PStr ''init'')"
  shows "snd (handle_line env a line) = a"
  using assms
  by (auto simp: handle_line_def split: sum.splits prod.splits)

lemma process_line_keeps_analyzer:
  assumes "\<forall>req. json_loads env (str_strip env line) = Inr req \<longrightarrow>
             py_get req ''action'' PNone \<noteq> Inr (PStr ''init'')"
  shows "snd (process_line env a line) = a"
  using handle_line_keeps_analyzer [OF assms] by (simp add: process_line_cases)

lemma protocol_loop_keeps_analyzer:
  assumes "\<forall>line \<in> set lines. \<forall>req. json_loads env (str_strip env line) = Inr req \<longrightarrow>
             py_get req ''action'' PNone \<noteq> Inr (PStr ''init'')"
  shows "snd (protocol_loop env a lines) = a"
  using assms
  by (induction lines) (simp_all add: protocol_loop_Cons process_line_keeps_analyzer del: protocol_loop.simps(2))

lemma handle_line_analyze:
  assumes "json_loads env (str_strip env line) = Inr req"
    and "py_get req ''action'' PNone = Inr (PStr ''analyze'')"
    and "py_getitem req ''audioPath'' = Inr p"
    and "py_getitem req ''sessionId'' = Inr s"
    and "py_getitem req ''timestamp'' = Inr t"
  shows "handle_line env a line =
     (Inr (PDict [(PStr ''result'', analyze_audio env a p s t),
                  (PStr ''sessionId'', s), (PStr ''timestamp'', t)]), a)"
  using assms by (simp add: handle_line_def)

text \<open>What the analysis reads of the environment: the decoding of the one audio file, the
  feature library and the classifier's \<^verbatim>\<open>predict\<close>.\<close>

lemma extract_features_agree:
  assumes "librosa_load env' p (sample_rate a) 3.0 = librosa_load env p (sample_rate a) 3.0"
    and "librosa_mfcc env' = librosa_mfcc env"
    and "librosa_spectral_centroid env' = librosa_spectral_centroid env"
    and "librosa_zero_crossing_rate env' = librosa_zero_crossing_rate env"
    and "librosa_rms env' = librosa_rms env"
    and "np_mean env' = np_mean env" and "np_std env' = np_std env"
  shows "extract_features env' a p = extract_features env a p"
  unfolding extract_features_def extract_features_try_def assms by (rule refl)

lemma predict_emotion_agree:
  assumes "\<forall>m x. model a = Some m \<longrightarrow> keras_predict env' m x = keras_predict env m x"
  shows "predict_emotion env' a f = predict_emotion env a f"
proof -
  have "predict_emotion_try env' a f = predict_emotion_try env a f"
    using assms by (cases "model a") (simp_all add: predict_emotion_try_def)
  then show ?thesis by (simp add: predict_emotion_def)
qed

lemma analyze_audio_full:
  assumes "predict_emotion env a (extract_features env a p) = Inr pr"
  shows "analyze_audio env a p s t =
     PDict [(PStr ''sessionId'', s),
            (PStr ''timestamp'', t),
            (PStr ''emotion'', emotion pr),
            (PStr ''confidence'', PFloat (confidence pr)),
            (PStr ''scores'', scores_dict (scores pr)),
            (PStr ''features'',
               PDict [(PStr ''mfcc'', floats (mfcc (extract_features env a p))),
                      (PStr ''spectralCentroid'', PFloat (spectralCentroid (extract_features env a p))),
                      (PStr ''zeroCrossingRate'', PFloat (zeroCrossingRate (extract_features env a p))),
                      (PStr ''energy'', PFloat (energy (extract_features env a p)))]),
            (PStr ''voiceActivity'', PBool (energy (extract_features env a p) > 0.01)),
            (PStr ''duration'', PFloat 1.0)]"
  using assms by (simp add: analyze_audio_def Let_def)

lemma analyze_audio_degraded:
  assumes "predict_emotion env a (extract_features env a p) = Inl e"
  shows "analyze_audio env a p s t =
     PDict [(PStr ''sessionId'', s), (PStr ''timestamp'', t), (PStr ''error'', PStr (str_exn e))]"
  using assms by (simp add: analyze_audio_def Let_def)

text \<open>
  Claim C8. In every result of \<^verbatim>\<open>analyze_audio\<close> without an \<^verbatim>\<open>error\<close> field,
  \<^verbatim>\<open>voiceActivity\<close> is true exactly when the energy reported under \<^verbatim>\<open>features\<close> is strictly
  greater than 0.01: an energy of exactly 0.01 gives false, an energy of 0.0100001 gives true.
\<close>

theorem voice_activity_threshold:
  assumes "py_getitem (analyze_audio env a p s t) ''error'' = Inl (KeyError ''error'')"
  shows "py_getitem (analyze_audio env a p s t) ''features'' =
           Inr (PDict [(PStr ''mfcc'', floats (mfcc (extract_features env a p))),
                       (PStr ''spectralCentroid'', PFloat (spectralCentroid (extract_features env a p))),
                       (PStr ''zeroCrossingRate'', PFloat (zeroCrossingRate (extract_features env a p))),
                       (PStr ''energy'', PFloat (energy (extract_features env a p)))]) \<and>
         py_getitem (analyze_audio env a p s t) ''voiceActivity'' =
           Inr (PBool (0.01 < energy (extract_features env a p))) \<and>
         (energy (extract_features env a p) = 0.01 \<longrightarrow>
            py_getitem (analyze_audio env a p s t) ''voiceActivity'' = Inr (PBool False)) \<and>
         (energy (extract_features env a p) = 0.0100001 \<longrightarrow>
            py_getitem (analyze_audio env a p s t) ''voiceActivity'' = Inr (PBool True))"
proof (cases "predict_emotion env a (extract_features env a p)")
  case (Inl e)
  from analyze_audio_degraded [OF Inl] assms show ?thesis
    by (simp add: py_getitem_def)
next
  case (Inr pr)
  from analyze_audio_full [OF Inr] show ?thesis
    by (simp add: py_getitem_def)
qed

theorem voice_activity_threshold_witness:
  "py_getitem (analyze_audio (sample_env\<lparr>librosa_rms := (\<lambda>y. Inr [[0.01]])\<rparr>) new_analyzer
      (PStr ''clip.wav'') (PStr ''s1'') (PInt 1)) ''voiceActivity'' = Inr (PBool False) \<and>
   py_getitem (analyze_audio (sample_env\<lparr>librosa_rms := (\<lambda>y. Inr [[0.0100001]])\<rparr>) new_analyzer
      (PStr ''clip.wav'') (PStr ''s1'') (PInt 1)) ''voiceActivity'' = Inr (PBool True)"
  using voice_activity_threshold
    [of "sample_env\<lparr>librosa_rms := (\<lambda>y. Inr [[0.01]])\<rparr>" new_analyzer
        "PStr ''clip.wav''" "PStr ''s1''" "PInt 1"]
    voice_activity_threshold
    [of "sample_env\<lparr>librosa_rms := (\<lambda>y. Inr [[0.0100001]])\<rparr>" new_analyzer
        "PStr ''clip.wav''" "PStr ''s1''" "PInt 1"]
  by (simp add: sample_simps py_simps analyzer_simps Let_def)

lemma predict_emotion_new_analyzer:
  "predict_emotion env new_analyzer f =
     Inr \<lparr>emotion = PStr ''neutral'', confidence = 1, scores = [(PStr ''neutral'', 1)]\<rparr>"
  by (simp add: predict_emotion_def predict_emotion_try_def neutral_fallback_def new_analyzer_def
      py_iter_def)

text \<open>
  Claim C9. On the analyzer as \<^verbatim>\<open>__init__\<close> leaves it, \<^verbatim>\<open>analyze_audio\<close> returns the full
  result, without an \<^verbatim>\<open>error\<close> field, with \<^verbatim>\<open>emotion\<close> \<^verbatim>\<open>"neutral"\<close>, \<^verbatim>\<open>confidence\<close> 1.0 and
  \<^verbatim>\<open>scores\<close> exactly \<^verbatim>\<open>{"neutral": 1.0}\<close>, for every environment and request. The analyzer is
  still in that state after any input lines none of which is an init command.
\<close>

theorem analyze_before_init:
  "analyze_audio env new_analyzer p s t =
     PDict [(PStr ''sessionId'', s),
            (PStr ''timestamp'', t),
            (PStr ''emotion'', PStr ''neutral''),
            (PStr ''confidence'', PFloat 1),
            (PStr ''scores'', PDict [(PStr ''neutral'', PFloat 1)]),
            (PStr ''features'',
               PDict [(PStr ''mfcc'', floats (mfcc (extract_features env new_analyzer p))),
                      (PStr ''spectralCentroid'',
                         PFloat (spectralCentroid (extract_features env new_analyzer p))),
                      (PStr ''zeroCrossingRate'',
                         PFloat (zeroCrossingRate (extract_features env new_analyzer p))),
                      (PStr ''energy'', PFloat (energy (extract_features env new_analyzer p)))]),
            (PStr ''voiceActivity'', PBool (0.01 < energy (extract_features env new_analyzer p))),
            (PStr ''duration'', PFloat 1)] \<and>
   py_getitem (analyze_audio env new_analyzer p s t) ''error'' = Inl (KeyError ''error'') \<and>
   ((\<forall>line \<in> set before. \<forall>req. json_loads env (str_strip env line) = Inr req \<longrightarrow>
        py_get req ''action'' PNone \<noteq> Inr (PStr ''init'')) \<longrightarrow>
      snd (protocol_loop env new_analyzer before) = new_analyzer)"
proof -
  have full: "analyze_audio env new_analyzer p s t =
     PDict [(PStr ''sessionId'', s),
            (PStr ''timestamp'', t),
            (PStr ''emotion'', PStr ''neutral''),
            (PStr ''confidence'', PFloat 1),
            (PStr ''scores'', PDict [(PStr ''neutral'', PFloat 1)]),
            (PStr ''features'',
               PDict [(PStr ''mfcc'', floats (mfcc (extract_features env new_analyzer p))),
                      (PStr ''spectralCentroid'',
                         PFloat (spectralCentroid (extract_features env new_analyzer p))),
                      (PStr ''zeroCrossingRate'',
                         PFloat (zeroCrossingRate (extract_features env new_analyzer p))),
                      (PStr ''energy'', PFloat (energy (extract_features env new_analyzer p)))]),
            (PStr ''voiceActivity'', PBool (0.01 < energy (extract_features env new_analyzer p))),
            (PStr ''duration'', PFloat 1)]"
    using analyze_audio_full [OF predict_emotion_new_analyzer, of env p s t]
    by (simp add: scores_dict_def)
  then have "py_getitem (analyze_audio env new_analyzer p s t) ''error'' = Inl (KeyError ''error'')"
    by (simp add: py_getitem_def)
  with full protocol_loop_keeps_analyzer [of before env new_analyzer] show ?thesis
    by blast
qed

theorem analyze_before_init_witness:
  "snd (protocol_loop sample_env new_analyzer [line_garbage, line_analyze]) = new_analyzer \<and>
   py_getitem (analyze_audio sample_env new_analyzer (PStr ''clip.wav'') (PStr ''s1'') (PInt 1))
     ''scores'' = Inr (PDict [(PStr ''neutral'', PFloat 1)])"
  using analyze_before_init
    [of sample_env "PStr ''clip.wav''" "PStr ''s1''" "PInt 1" "[line_garbage, line_analyze]"]
  by (simp add: sample_simps py_simps handle_line_def process_line_def)

section \<open>Repeating an analysis\<close>

lemma analyze_audio_agree:
  assumes "extract_features env' a p = extract_features env a p"
    and "\<forall>m x. model a = Some m \<longrightarrow> keras_predict env' m x = keras_predict env m x"
  shows "analyze_audio env' a p s t = analyze_audio env a p s t"
  using assms(1) predict_emotion_agree [OF assms(2)]
  by (simp add: analyze_audio_def)

text \<open>
  Claim C7. Let \<open>env\<close> be the environment at the first of two consecutive identical analyze
  requests and \<open>env'\<close> the one at the second, and let the audio file decode at the second
  request as at the first (the same unchanged file), the classifier answer as at the first
  (the same unchanged classifier) and the feature library be the same; anything else may
  have changed. The first request leaves the analyzer as it was; both responses carry the
  result of \<^verbatim>\<open>analyze_audio\<close> on that analyzer; the two results are equal; and when the
  prediction returns, \<^verbatim>\<open>emotion\<close> and \<^verbatim>\<open>confidence\<close> of both results are the ones that
  \<^verbatim>\<open>predict_emotion\<close> computes from the features that \<^verbatim>\<open>extract_features\<close> extracts.
\<close>

theorem analyze_twice_identical:
  assumes first: "json_loads env (str_strip env line) = Inr req"
    and second: "json_loads env' (str_strip env' line) = Inr req"
    and action: "py_get req ''action'' PNone = Inr (PStr ''analyze'')"
    and audio: "py_getitem req ''audioPath'' = Inr p"
    and sess: "py_getitem req ''sessionId'' = Inr s"
    and stamp: "py_getitem req ''timestamp'' = Inr t"
    and same_file: "librosa_load env' p (sample_rate a) 3.0 = librosa_load env p (sample_rate a) 3.0"
    and same_lib: "librosa_mfcc env' = librosa_mfcc env"
      "librosa_spectral_centroid env' = librosa_spectral_centroid env"
      "librosa_zero_crossing_rate env' = librosa_zero_crossing_rate env"
      "librosa_rms env' = librosa_rms env"
      "np_mean env' = np_mean env" "np_std env' = np_std env"
    and same_clf: "\<forall>m x. model a = Some m \<longrightarrow> keras_predict env' m x = keras_predict env m x"
  shows "snd (process_line env a line) = a \<and>
         fst (handle_line env a line) =
           Inr (PDict [(PStr ''result'', analyze_audio env a p s t),
                       (PStr ''sessionId'', s), (PStr ''timestamp'', t)]) \<and>
         fst (handle_line env' (snd (process_line env a line)) line) =
           Inr (PDict [(PStr ''result'', analyze_audio env' a p s t),
                       (PStr ''sessionId'', s), (PStr ''timestamp'', t)]) \<and>
         extract_features env' a p = extract_features env a p \<and>
         predict_emotion env' a (extract_features env' a p) =
           predict_emotion env a (extract_features env a p) \<and>
         analyze_audio env' a p s t = analyze_audio env a p s t \<and>
         (\<forall>pr. predict_emotion env a (extract_features env a p) = Inr pr \<longrightarrow>
            py_getitem (analyze_audio env a p s t) ''emotion'' = Inr (emotion pr) \<and>
            py_getitem (analyze_audio env a p s t) ''confidence'' = Inr (PFloat (confidence pr)) \<and>
            py_getitem (analyze_audio env' a p s t) ''emotion'' = Inr (emotion pr) \<and>
            py_getitem (analyze_audio env' a p s t) ''confidence'' = Inr (PFloat (confidence pr)))"
proof -
  have keep: "snd (process_line env a line) = a"
    using first action by (intro process_line_keeps_analyzer) simp
  have r1: "fst (handle_line env a line) =
           Inr (PDict [(PStr ''result'', analyze_audio env a p s t),
                       (PStr ''sessionId'', s), (PStr ''timestamp'', t)])"
    by (simp add: handle_line_analyze [OF first action audio sess stamp])
  have r2: "fst (handle_line env' (snd (process_line env a line)) line) =
           Inr (PDict [(PStr ''result'', analyze_audio env' a p s t),
                       (PStr ''sessionId'', s), (PStr ''timestamp'', t)])"
    by (simp add: keep handle_line_analyze [OF second action audio sess stamp])
  have feats: "extract_features env' a p = extract_features env a p"
    using same_file same_lib by (rule extract_features_agree)
  have pred: "predict_emotion env' a (extract_features env' a p) =
           predict_emotion env a (extract_features env a p)"
    by (simp add: feats predict_emotion_agree [OF same_clf])
  have same: "analyze_audio env' a p s t = analyze_audio env a p s t"
    using feats same_clf by (rule analyze_audio_agree)
  have fields: "py_getitem (analyze_audio env a p s t) ''emotion'' = Inr (emotion pr) \<and>
            py_getitem (analyze_audio env a p s t) ''confidence'' = Inr (PFloat (confidence pr)) \<and>
            py_getitem (analyze_audio env' a p s t) ''emotion'' = Inr (emotion pr) \<and>
            py_getitem (analyze_audio env' a p s t) ''confidence'' = Inr (PFloat (confidence pr))"
    if "predict_emotion env a (extract_features env a p) = Inr pr" for pr
    unfolding same using analyze_audio_full [OF that, of s t]
    by (simp add: py_getitem_def)
  from keep r1 r2 feats pred same fields show ?thesis by blast
qed

text \<open>A configured analyzer with a two-label classifier; at the second request another file
  has appeared and the artifact exists, and the clip and the classifier are as before.\<close>

theorem analyze_twice_identical_witness:
  "snd (process_line sample_env
          (new_analyzer\<lparr>model := Some [0.25, 0.75],
             emotion_labels := PList [PStr ''neutral'', PStr ''happy'']\<rparr>) line_analyze) =
     new_analyzer\<lparr>model := Some [0.25, 0.75],
        emotion_labels := PList [PStr ''neutral'', PStr ''happy'']\<rparr> \<and>
   py_getitem (analyze_audio sample_env
       (new_analyzer\<lparr>model := Some [0.25, 0.75],
          emotion_labels := PList [PStr ''neutral'', PStr ''happy'']\<rparr>)
       (PStr ''clip.wav'') (PStr ''s1'') (PInt 1)) ''emotion'' = Inr (PStr ''happy'') \<and>
   py_getitem (analyze_audio
       (sample_env\<lparr>path_exists := (\<lambda>f. Inr True),
          librosa_load := (\<lambda>p sr d. if p = PStr ''clip.wav'' then Inr ([0, 0.5, - 0.5, 0], sr)
                                     else Inr ([1], sr))\<rparr>)
       (new_analyzer\<lparr>model := Some [0.25, 0.75],
          emotion_labels := PList [PStr ''neutral'', PStr ''happy'']\<rparr>)
       (PStr ''clip.wav'') (PStr ''s1'') (PInt 1)) ''emotion'' = Inr (PStr ''happy'') \<and>
   py_getitem (analyze_audio sample_env
       (new_analyzer\<lparr>model := Some [0.25, 0.75],
          emotion_labels := PList [PStr ''neutral'', PStr ''happy'']\<rparr>)
       (PStr ''clip.wav'') (PStr ''s1'') (PInt 1)) ''confidence'' = Inr (PFloat 0.75) \<and>
   py_getitem (analyze_audio
       (sample_env\<lparr>path_exists := (\<lambda>f. Inr True),
          librosa_load := (\<lambda>p sr d. if p = PStr ''clip.wav'' then Inr ([0, 0.5, - 0.5, 0], sr)
                                     else Inr ([1], sr))\<rparr>)
       (new_analyzer\<lparr>model := Some [0.25, 0.75],
          emotion_labels := PList [PStr ''neutral'', PStr ''happy'']\<rparr>)
       (PStr ''clip.wav'') (PStr ''s1'') (PInt 1)) ''confidence'' = Inr (PFloat 0.75)"
  using analyze_twice_identical
    [where env = sample_env
       and env' = "sample_env\<lparr>path_exists := (\<lambda>f. Inr True),
          librosa_load := (\<lambda>p sr d. if p = PStr ''clip.wav'' then Inr ([0, 0.5, - 0.5, 0], sr)
                                     else Inr ([1], sr))\<rparr>"
       and line = line_analyze
       and req = "PDict [(PStr ''action'', PStr ''analyze''), (PStr ''audioPath'', PStr ''clip.wav''),
                         (PStr ''sessionId'', PStr ''s1''), (PStr ''timestamp'', PInt 1)]"
       and p = "PStr ''clip.wav''" and s = "PStr ''s1''" and t = "PInt 1"
       and a = "new_analyzer\<lparr>model := Some [0.25, 0.75],
                  emotion_labels := PList [PStr ''neutral'', PStr ''happy'']\<rparr>"]
  by (simp add: sample_simps py_simps analyzer_simps Let_def)

end
